theory Spec2Isabelle
  imports Main "HOL-Library.Word" "HOL-Library.AList"
begin

unbundle bit_operations_syntax

section \<open>The mount-table monitor of libmount (monitor.c, monitor.h)\<close>

text \<open>
  The development embeds the aggregator of libmount/src/monitor.c:
  \<^verbatim>\<open>monitor_modify_epoll\<close>, \<^verbatim>\<open>mnt_monitor_close_fd\<close>, \<^verbatim>\<open>mnt_monitor_get_fd\<close>,
  \<^verbatim>\<open>read_epoll_events\<close>, \<^verbatim>\<open>mnt_monitor_wait\<close>, \<^verbatim>\<open>get_active\<close>,
  \<^verbatim>\<open>mnt_monitor_next_change\<close> and \<^verbatim>\<open>mnt_monitor_event_next_fs\<close>.

  The C code works on three things, and each is explicit state here:
  \<^item> the monitor object and its entries (records; an entry pointer is the index of the
    entry in the monitor's list, \<^verbatim>\<open>NULL\<close> is \<open>None\<close>);
  \<^item> the operating system: the descriptor table, the epoll instances and \<^verbatim>\<open>errno\<close>
    (the record \<open>os\<close>, with the epoll system calls as functions on it);
  \<^item> the backend drivers behind \<^verbatim>\<open>me->opers\<close>: their bodies are not part of monitor.c,
    so the table of operations is a parameter \<open>ops\<close> of every function that calls one.

  A function of the C code that may block for ever, spin for ever, stop in an
  \<^verbatim>\<open>assert\<close> or follow a pointer that is not an entry of the monitor has an
  \<open>option\<close> result: \<open>None\<close> says that the call does not return a value.
\<close>

subsection \<open>Constants of the system headers\<close>

abbreviation ENOENT :: nat where "ENOENT \<equiv> 2"
abbreviation EINTR :: nat where "EINTR \<equiv> 4"
abbreviation EBADF :: nat where "EBADF \<equiv> 9"
abbreviation EEXIST :: nat where "EEXIST \<equiv> 17"
abbreviation EINVAL :: nat where "EINVAL \<equiv> 22"
abbreviation EMFILE :: nat where "EMFILE \<equiv> 24"
abbreviation ENOSPC :: nat where "ENOSPC \<equiv> 28"
abbreviation ENOTSUP :: nat where "ENOTSUP \<equiv> 95"

abbreviation EPOLLIN :: "32 word" where "EPOLLIN \<equiv> 0x1"
abbreviation EPOLLERR :: "32 word" where "EPOLLERR \<equiv> 0x8"
abbreviation EPOLLHUP :: "32 word" where "EPOLLHUP \<equiv> 0x10"
abbreviation EPOLLET :: "32 word" where "EPOLLET \<equiv> 0x80000000"

datatype epoll_op = EPOLL_CTL_ADD | EPOLL_CTL_DEL

subsection \<open>The operating system: descriptors and epoll\<close>

text \<open>
  \<^verbatim>\<open>struct epoll_event\<close>: the wanted conditions and the user data, which monitor.c
  always sets to the entry (\<^verbatim>\<open>ev.data.ptr = (void *) me\<close>).
\<close>

record epoll_event =
  ev_events :: "32 word"
  ev_ptr :: "nat option"

text \<open>
  An epoll instance, after epoll(7): the interest list (descriptor and registered
  event) and the ready list (descriptors with a notification that has not been
  delivered yet).
\<close>

record eventpoll =
  ep_items :: "(int \<times> epoll_event) list"
  ep_rdllist :: "int list"

text \<open>
  An open descriptor is an epoll instance or any other file; of the other files only
  the mask that \<^verbatim>\<open>poll\<close> reports at the moment matters here.
\<close>

datatype ofile = Plain "32 word" | EventPoll eventpoll

text \<open>
  \<open>os_errno\<close> is \<^verbatim>\<open>errno\<close>: error numbers are positive, 0 is "no error".
  \<open>os_nofile\<close> is the limit on descriptor numbers (\<^verbatim>\<open>RLIMIT_NOFILE\<close>),
  \<open>os_max_user_watches\<close> the limit on registrations, \<open>os_sigpending\<close> says that a
  signal is waiting to interrupt a blocking call.
\<close>

record os =
  os_errno :: nat
  os_fds :: "(int \<times> ofile) list"
  os_nofile :: nat
  os_max_user_watches :: nat
  os_sigpending :: bool

definition fd_lookup :: "os \<Rightarrow> int \<Rightarrow> ofile option" where
  "fd_lookup w fd = map_of (os_fds w) fd"

definition fd_store :: "os \<Rightarrow> int \<Rightarrow> ofile \<Rightarrow> os" where
  "fd_store w fd f = w\<lparr>os_fds := AList.update fd f (os_fds w)\<rparr>"

definition poll_mask :: "os \<Rightarrow> int \<Rightarrow> 32 word" where
  "poll_mask w fd = (case fd_lookup w fd of Some (Plain m) \<Rightarrow> m | _ \<Rightarrow> 0)"

text \<open>A failing system call returns -1 and sets \<^verbatim>\<open>errno\<close>.\<close>

definition sys_fail :: "os \<Rightarrow> nat \<Rightarrow> int \<times> os" where
  "sys_fail w e = (- 1, w\<lparr>os_errno := e\<rparr>)"

text \<open>The lowest descriptor number that is not open, below the limit.\<close>

definition alloc_fd :: "os \<Rightarrow> nat option" where
  "alloc_fd w = List.find (\<lambda>n. fd_lookup w (int n) = None) [0..<os_nofile w]"

definition epoll_create1 :: "os \<Rightarrow> int \<times> os" where
  "epoll_create1 w =
     (case alloc_fd w of
        None \<Rightarrow> sys_fail w EMFILE
      | Some n \<Rightarrow> (int n, fd_store w (int n) (EventPoll \<lparr>ep_items = [], ep_rdllist = []\<rparr>)))"

text \<open>\<^verbatim>\<open>open\<close> of a file whose poll mask is \<open>m\<close>.\<close>

definition open_file :: "os \<Rightarrow> 32 word \<Rightarrow> int \<times> os" where
  "open_file w m =
     (case alloc_fd w of
        None \<Rightarrow> sys_fail w EMFILE
      | Some n \<Rightarrow> (int n, fd_store w (int n) (Plain m)))"

text \<open>The conditions of a registered descriptor that hold now (error and hang-up are always wanted).\<close>

definition ep_revents :: "os \<Rightarrow> epoll_event \<Rightarrow> int \<Rightarrow> 32 word" where
  "ep_revents w ev fd = poll_mask w fd AND (ev_events ev OR EPOLLERR OR EPOLLHUP)"

definition epoll_ctl :: "os \<Rightarrow> int \<Rightarrow> epoll_op \<Rightarrow> int \<Rightarrow> epoll_event option \<Rightarrow> int \<times> os" where
  "epoll_ctl w epfd opn fd evo =
     (case fd_lookup w epfd of
        None \<Rightarrow> sys_fail w EBADF
      | Some (Plain m) \<Rightarrow> (if fd_lookup w fd = None then sys_fail w EBADF else sys_fail w EINVAL)
      | Some (EventPoll ep) \<Rightarrow>
          if fd_lookup w fd = None then sys_fail w EBADF
          else if fd = epfd then sys_fail w EINVAL
          else (case opn of
             EPOLL_CTL_ADD \<Rightarrow>
               (case evo of
                  None \<Rightarrow> sys_fail w EINVAL
                | Some ev \<Rightarrow>
                    if map_of (ep_items ep) fd \<noteq> None then sys_fail w EEXIST
                    else if os_max_user_watches w \<le> length (ep_items ep) then sys_fail w ENOSPC
                    else (0, fd_store w epfd (EventPoll
                           \<lparr>ep_items = ep_items ep @ [(fd, ev)],
                            ep_rdllist = (if ep_revents w ev fd \<noteq> 0 then ep_rdllist ep @ [fd]
                                          else ep_rdllist ep)\<rparr>)))
           | EPOLL_CTL_DEL \<Rightarrow>
               if map_of (ep_items ep) fd = None then sys_fail w ENOENT
               else (0, fd_store w epfd (EventPoll
                      \<lparr>ep_items = AList.delete fd (ep_items ep),
                       ep_rdllist = removeAll fd (ep_rdllist ep)\<rparr>))))"

text \<open>
  One pass over the ready list for at most one event: a descriptor that is no longer
  registered or no longer ready is dropped; the first ready one is delivered, and it
  stays on the list unless it was registered edge-triggered.
\<close>

fun ep_scan :: "os \<Rightarrow> (int \<times> epoll_event) list \<Rightarrow> int list \<Rightarrow> epoll_event option \<times> int list" where
  "ep_scan w items [] = (None, [])"
| "ep_scan w items (f # rdl) =
     (case map_of items f of
        None \<Rightarrow> ep_scan w items rdl
      | Some ev \<Rightarrow>
          if ep_revents w ev f = 0 then ep_scan w items rdl
          else (Some ev, if ev_events ev AND EPOLLET \<noteq> 0 then rdl else rdl @ [f]))"

text \<open>
  \<^verbatim>\<open>epoll_wait(epfd, events, 1, timeout)\<close>: the result, \<^verbatim>\<open>events[0].data.ptr\<close> and
  the new state. With nothing ready the call returns 0 when the timeout is bounded, is
  interrupted by a waiting signal when it would block, and does not return otherwise.
\<close>

definition epoll_wait :: "os \<Rightarrow> int \<Rightarrow> int \<Rightarrow> (int \<times> nat option \<times> os) option" where
  "epoll_wait w epfd timeout =
     (case fd_lookup w epfd of
        None \<Rightarrow> Some (- 1, None, w\<lparr>os_errno := EBADF\<rparr>)
      | Some (Plain m) \<Rightarrow> Some (- 1, None, w\<lparr>os_errno := EINVAL\<rparr>)
      | Some (EventPoll ep) \<Rightarrow>
          (case ep_scan w (ep_items ep) (ep_rdllist ep) of
             (Some ev, rdl) \<Rightarrow> Some (1, ev_ptr ev, fd_store w epfd (EventPoll (ep\<lparr>ep_rdllist := rdl\<rparr>)))
           | (None, rdl) \<Rightarrow>
               if timeout = 0 then Some (0, None, fd_store w epfd (EventPoll (ep\<lparr>ep_rdllist := rdl\<rparr>)))
               else if os_sigpending w
                 then Some (- 1, None, (fd_store w epfd (EventPoll (ep\<lparr>ep_rdllist := rdl\<rparr>)))
                                         \<lparr>os_errno := EINTR, os_sigpending := False\<rparr>)
               else if 0 < timeout then Some (0, None, fd_store w epfd (EventPoll (ep\<lparr>ep_rdllist := rdl\<rparr>)))
               else None))"

text \<open>Closing a descriptor also takes it out of every epoll instance.\<close>

definition ep_forget :: "int \<Rightarrow> ofile \<Rightarrow> ofile" where
  "ep_forget fd f =
     (case f of
        Plain m \<Rightarrow> Plain m
      | EventPoll ep \<Rightarrow> EventPoll \<lparr>ep_items = AList.delete fd (ep_items ep),
                                   ep_rdllist = removeAll fd (ep_rdllist ep)\<rparr>)"

definition close :: "os \<Rightarrow> int \<Rightarrow> int \<times> os" where
  "close w fd =
     (if fd_lookup w fd = None then sys_fail w EBADF
      else (0, w\<lparr>os_fds := map (\<lambda>(k, f). (k, ep_forget fd f)) (AList.delete fd (os_fds w))\<rparr>))"


subsection \<open>The data model of monitor.h\<close>

text \<open>
  \<^verbatim>\<open>struct monitor_entry\<close>. \<open>me_opers\<close> is the pointer to the driver's table of
  operations, \<open>me_data\<close> the driver's private data (opaque to monitor.c).
\<close>

record monitor_entry =
  me_fd :: int
  me_id :: int
  me_path :: string
  me_type :: int
  me_events :: "32 word"
  me_opers :: nat
  me_data :: nat
  me_enabled :: bool
  me_active :: bool

text \<open>\<^verbatim>\<open>struct libmnt_monitor\<close>; \<open>mn_fd\<close> is the epoll descriptor, -1 when there is none.\<close>

record libmnt_monitor =
  mn_refcount :: int
  mn_fd :: int
  mn_ents :: "monitor_entry list"
  mn_last :: "nat option"
  mn_kernel_veiled :: bool

text \<open>\<^verbatim>\<open>struct libmnt_fs\<close> is opaque here: the unique ID of the mount it describes.\<close>

type_synonym libmnt_fs = nat

text \<open>
  What a driver operation leaves behind: its return value, the operating system, and
  the two fields of the entry that belong to the driver (the descriptor and the
  private data). The other fields of the entry and the monitor are written by
  monitor.c only.
\<close>

record drv_out =
  out_rc :: int
  out_os :: os
  out_fd :: int
  out_data :: nat

type_synonym drv_op = "os \<Rightarrow> libmnt_monitor \<Rightarrow> monitor_entry \<Rightarrow> drv_out"

text \<open>
  \<^verbatim>\<open>struct monitor_opers\<close>. \<open>op_free_data\<close> and \<open>op_next_fs\<close> may be \<^verbatim>\<open>NULL\<close>;
  monitor.c calls the other three without a test.
\<close>

record monitor_opers =
  op_get_fd :: drv_op
  op_close_fd :: drv_op
  op_free_data :: "drv_op option"
  op_process_event :: drv_op
  op_next_fs :: "(os \<Rightarrow> libmnt_monitor \<Rightarrow> monitor_entry \<Rightarrow> libmnt_fs \<Rightarrow> drv_out \<times> libmnt_fs) option"

type_synonym opers_table = "nat \<Rightarrow> monitor_opers"

definition put_entry :: "libmnt_monitor \<Rightarrow> nat \<Rightarrow> monitor_entry \<Rightarrow> libmnt_monitor" where
  "put_entry mn i me = mn\<lparr>mn_ents := (mn_ents mn)[i := me]\<rparr>"

text \<open>The entry after a driver operation.\<close>

definition drv_entry :: "monitor_entry \<Rightarrow> drv_out \<Rightarrow> monitor_entry" where
  "drv_entry me out = me\<lparr>me_fd := out_fd out, me_data := out_data out\<rparr>"

subsection \<open>monitor.c\<close>

definition mnt_new_monitor :: libmnt_monitor where
  "mnt_new_monitor =
     \<lparr>mn_refcount = 1, mn_fd = - 1, mn_ents = [], mn_last = None, mn_kernel_veiled = False\<rparr>"

text \<open>\<^verbatim>\<open>monitor_new_entry\<close>: the zeroed entry, with descriptor and identifier unset, at the tail.\<close>

definition monitor_new_entry :: "libmnt_monitor \<Rightarrow> libmnt_monitor \<times> nat" where
  "monitor_new_entry mn =
     (mn\<lparr>mn_ents := mn_ents mn @
         [\<lparr>me_fd = - 1, me_id = - 1, me_path = [], me_type = 0, me_events = 0, me_opers = 0,
           me_data = 0, me_enabled = False, me_active = False\<rparr>]\<rparr>,
      length (mn_ents mn))"

text \<open>The loop \<^verbatim>\<open>while (epoll_wait(mn->fd, events, 1, 0) > 0);\<close> of \<^verbatim>\<open>monitor_modify_epoll\<close>.\<close>

partial_function (option) drain_events :: "os \<Rightarrow> int \<Rightarrow> os option" where
  "drain_events w epfd =
     (case epoll_wait w epfd 0 of
        None \<Rightarrow> None
      | Some (rc, ptr, w') \<Rightarrow> if 0 < rc then drain_events w' epfd else Some w')"

definition monitor_modify_epoll ::
  "opers_table \<Rightarrow> os \<Rightarrow> libmnt_monitor \<Rightarrow> nat \<Rightarrow> bool \<Rightarrow> (int \<times> os \<times> libmnt_monitor) option" where
  "monitor_modify_epoll ops w mn i enable =
     (if length (mn_ents mn) \<le> i then None
      else
        let me = (mn_ents mn ! i)\<lparr>me_enabled := enable, me_active := False\<rparr>;
            mn1 = put_entry mn i me
        in
        if mn_fd mn1 < 0 then Some (0, w, mn1)
        else if enable then
          (let out = op_get_fd (ops (me_opers me)) w mn1 me;
               me1 = drv_entry me out;
               mn2 = put_entry mn1 i me1;
               w1 = out_os out;
               fd = out_rc out
           in
           if fd < 0 then Some (- int (os_errno w1), w1, mn2)
           else
             (case epoll_ctl w1 (mn_fd mn2) EPOLL_CTL_ADD fd
                     (Some \<lparr>ev_events = me_events me, ev_ptr = Some i\<rparr>) of
                (r, w2) \<Rightarrow>
                  if r < 0 \<and> os_errno w2 \<noteq> EEXIST then Some (- int (os_errno w2), w2, mn2)
                  else if me_events me1 AND (EPOLLIN OR EPOLLET) \<noteq> 0 then
                    (case drain_events w2 (mn_fd mn2) of
                       None \<Rightarrow> None
                     | Some w3 \<Rightarrow> Some (0, w3, mn2))
                  else Some (0, w2, mn2)))
        else if me_fd me \<noteq> 0 then
          (case epoll_ctl w (mn_fd mn1) EPOLL_CTL_DEL (me_fd me) None of
             (r, w1) \<Rightarrow>
               if r < 0 \<and> os_errno w1 \<noteq> ENOENT then Some (- int (os_errno w1), w1, mn1)
               else Some (0, w1, mn1))
        else Some (0, w, mn1))"

text \<open>
  The loop of \<^verbatim>\<open>mnt_monitor_close_fd\<close> over the entries, by index: the result of
  \<^verbatim>\<open>monitor_modify_epoll\<close> is ignored, the driver's \<^verbatim>\<open>op_close_fd\<close> is called on
  every entry.
\<close>

fun close_fd_entries ::
  "opers_table \<Rightarrow> nat list \<Rightarrow> os \<Rightarrow> libmnt_monitor \<Rightarrow> (os \<times> libmnt_monitor) option" where
  "close_fd_entries ops [] w mn = Some (w, mn)"
| "close_fd_entries ops (i # rest) w mn =
     (case (if 0 \<le> mn_fd mn then monitor_modify_epoll ops w mn i False else Some (0, w, mn)) of
        None \<Rightarrow> None
      | Some (rc, w1, mn1) \<Rightarrow>
          (if length (mn_ents mn1) \<le> i then None
           else
             let me = mn_ents mn1 ! i;
                 out = op_close_fd (ops (me_opers me)) w1 mn1 me
             in close_fd_entries ops rest (out_os out) (put_entry mn1 i (drv_entry me out))))"

definition mnt_monitor_close_fd ::
  "opers_table \<Rightarrow> os \<Rightarrow> libmnt_monitor option \<Rightarrow> (int \<times> os \<times> libmnt_monitor option) option" where
  "mnt_monitor_close_fd ops w mno =
     (case mno of
        None \<Rightarrow> Some (- int EINVAL, w, None)
      | Some mn \<Rightarrow>
          (case close_fd_entries ops [0..<length (mn_ents mn)] w mn of
             None \<Rightarrow> None
           | Some (w1, mn1) \<Rightarrow>
               let w2 = (if 0 \<le> mn_fd mn1 then snd (close w1 (mn_fd mn1)) else w1)
               in Some (0, w2, Some (mn1\<lparr>mn_fd := - 1\<rparr>))))"

text \<open>The loop of \<^verbatim>\<open>mnt_monitor_get_fd\<close> over the entries: it stops at the first failure.\<close>

fun get_fd_entries ::
  "opers_table \<Rightarrow> nat list \<Rightarrow> os \<Rightarrow> libmnt_monitor \<Rightarrow> (int \<times> os \<times> libmnt_monitor) option" where
  "get_fd_entries ops [] w mn = Some (0, w, mn)"
| "get_fd_entries ops (i # rest) w mn =
     (if length (mn_ents mn) \<le> i then None
      else if \<not> me_enabled (mn_ents mn ! i) then get_fd_entries ops rest w mn
      else
        (case monitor_modify_epoll ops w mn i True of
           None \<Rightarrow> None
         | Some (rc, w1, mn1) \<Rightarrow>
             if rc \<noteq> 0 then Some (rc, w1, mn1) else get_fd_entries ops rest w1 mn1))"

definition mnt_monitor_get_fd ::
  "opers_table \<Rightarrow> os \<Rightarrow> libmnt_monitor option \<Rightarrow> (int \<times> os \<times> libmnt_monitor option) option" where
  "mnt_monitor_get_fd ops w mno =
     (case mno of
        None \<Rightarrow> Some (- int EINVAL, w, None)
      | Some mn \<Rightarrow>
          if 0 \<le> mn_fd mn then Some (mn_fd mn, w, Some mn)
          else
            (case epoll_create1 w of
               (fd, w1) \<Rightarrow>
                 let mn1 = mn\<lparr>mn_fd := fd\<rparr> in
                 if fd < 0 then Some (- int (os_errno w1), w1, Some mn1)
                 else
                   (case get_fd_entries ops [0..<length (mn_ents mn1)] w1 mn1 of
                      None \<Rightarrow> None
                    | Some (rc, w2, mn2) \<Rightarrow>
                        if rc \<noteq> 0 then
                          Some ((if os_errno w2 \<noteq> 0 then - int (os_errno w2) else - int EINVAL),
                                snd (close w2 (mn_fd mn2)), Some (mn2\<lparr>mn_fd := - 1\<rparr>))
                        else Some (mn_fd mn2, w2, Some mn2))))"

text \<open>
  \<^verbatim>\<open>read_epoll_events\<close>: the result, \<^verbatim>\<open>*act\<close>, and the new state. Returns 0 when an
  event was accepted, 1 for nothing (timeout), a negative number on error.
\<close>

partial_function (option) read_epoll_events ::
  "opers_table \<Rightarrow> os \<Rightarrow> libmnt_monitor \<Rightarrow> int \<Rightarrow> (int \<times> nat option \<times> os \<times> libmnt_monitor) option" where
  "read_epoll_events ops w mn timeout =
     (case epoll_wait w (mn_fd mn) timeout of
        None \<Rightarrow> None
      | Some (rc, ptr, w1) \<Rightarrow>
          if rc < 0 then Some (- int (os_errno w1), None, w1, mn)
          else if rc = 0 then Some (1, None, w1, mn)
          else
            (case ptr of
               None \<Rightarrow> Some (- int EINVAL, None, w1, mn)
             | Some i \<Rightarrow>
                 if length (mn_ents mn) \<le> i then None
                 else
                   let me = mn_ents mn ! i;
                       out = op_process_event (ops (me_opers me)) w1 mn me;
                       me1 = drv_entry me out;
                       mn1 = put_entry mn i me1
                   in
                   if out_rc out < 0 then Some (out_rc out, None, out_os out, mn1)
                   else if out_rc out = 0
                     then Some (0, Some i, out_os out, put_entry mn1 i (me1\<lparr>me_active := True\<rparr>))
                   else read_epoll_events ops (out_os out) mn1 timeout))"

definition mnt_monitor_wait ::
  "opers_table \<Rightarrow> os \<Rightarrow> libmnt_monitor option \<Rightarrow> int \<Rightarrow> (int \<times> os \<times> libmnt_monitor option) option" where
  "mnt_monitor_wait ops w mno timeout =
     (case mno of
        None \<Rightarrow> Some (- int EINVAL, w, None)
      | Some mn \<Rightarrow>
          (case (if mn_fd mn < 0 then mnt_monitor_get_fd ops w (Some mn) else Some (0, w, Some mn)) of
             None \<Rightarrow> None
           | Some (rc, w1, None) \<Rightarrow> None
           | Some (rc, w1, Some mn1) \<Rightarrow>
               if mn_fd mn < 0 \<and> rc < 0 then Some (rc, w1, Some mn1)
               else
                 (case read_epoll_events ops w1 mn1 timeout of
                    None \<Rightarrow> None
                  | Some (rc2, act, w2, mn2) \<Rightarrow>
                      Some ((if rc2 = 0 then 1 else if rc2 = 1 then 0 else rc2), w2, Some mn2))))"

fun get_active_from :: "monitor_entry list \<Rightarrow> nat \<Rightarrow> nat option" where
  "get_active_from [] k = None"
| "get_active_from (me # rest) k = (if me_active me then Some k else get_active_from rest (Suc k))"

definition get_active :: "libmnt_monitor \<Rightarrow> nat option" where
  "get_active mn = get_active_from (mn_ents mn) 0"

text \<open>
  \<^verbatim>\<open>mnt_monitor_next_change\<close>: the result, the values stored through \<^verbatim>\<open>filename\<close> and
  \<^verbatim>\<open>type\<close> (only on success), and the new state.
\<close>

definition next_change_report ::
  "os \<Rightarrow> libmnt_monitor \<Rightarrow> nat \<Rightarrow> (int \<times> (string \<times> int) option \<times> os \<times> libmnt_monitor option) option" where
  "next_change_report w mn i =
     (if length (mn_ents mn) \<le> i then None
      else
        let me = (mn_ents mn ! i)\<lparr>me_active := False\<rparr>
        in Some (0, Some (me_path me, me_type me), w, Some ((put_entry mn i me)\<lparr>mn_last := Some i\<rparr>)))"

definition mnt_monitor_next_change ::
  "opers_table \<Rightarrow> os \<Rightarrow> libmnt_monitor option \<Rightarrow>
     (int \<times> (string \<times> int) option \<times> os \<times> libmnt_monitor option) option" where
  "mnt_monitor_next_change ops w mno =
     (case mno of
        None \<Rightarrow> Some (- int EINVAL, None, w, None)
      | Some mn \<Rightarrow>
          if mn_fd mn < 0 then Some (- int EINVAL, None, w, Some mn)
          else
            let mn1 = mn\<lparr>mn_last := None\<rparr> in
            (case get_active mn1 of
               Some i \<Rightarrow> next_change_report w mn1 i
             | None \<Rightarrow>
                 (case read_epoll_events ops w mn1 0 of
                    None \<Rightarrow> None
                  | Some (rc, act, w1, mn2) \<Rightarrow>
                      if rc \<noteq> 0 then Some (rc, None, w1, Some mn2)
                      else (case act of None \<Rightarrow> None | Some i \<Rightarrow> next_change_report w1 mn2 i))))"

text \<open>\<^verbatim>\<open>mnt_monitor_event_next_fs\<close>: the result, the filesystem record and the new state.\<close>

definition mnt_monitor_event_next_fs ::
  "opers_table \<Rightarrow> os \<Rightarrow> libmnt_monitor option \<Rightarrow> libmnt_fs option \<Rightarrow>
     (int \<times> libmnt_fs option \<times> os \<times> libmnt_monitor option) option" where
  "mnt_monitor_event_next_fs ops w mno fso =
     (case mno of
        None \<Rightarrow> Some (- int EINVAL, fso, w, mno)
      | Some mn \<Rightarrow>
          (case fso of
             None \<Rightarrow> Some (- int EINVAL, fso, w, mno)
           | Some fs \<Rightarrow>
               (case mn_last mn of
                  None \<Rightarrow> Some (1, fso, w, mno)
                | Some i \<Rightarrow>
                    if length (mn_ents mn) \<le> i then None
                    else
                      let me = mn_ents mn ! i in
                      (case op_next_fs (ops (me_opers me)) of
                         None \<Rightarrow> Some (- int ENOTSUP, fso, w, mno)
                       | Some f \<Rightarrow>
                           (case f w mn me fs of
                              (out, fs') \<Rightarrow>
                                Some (out_rc out, Some fs', out_os out,
                                      Some (put_entry mn i (drv_entry me out))))))))"

subsection \<open>Sample drivers and states\<close>

text \<open>
  Modelled from the spec: the driver of the polled system table (its body is not part
  of monitor.c). The descriptor is opened on first use and returned afterwards; every
  readiness is accepted as a change; there are no structured details.
\<close>

definition polled_get_fd :: drv_op where
  "polled_get_fd w mn me =
     (if \<not> me_enabled me
        then \<lparr>out_rc = - int EINVAL, out_os = w, out_fd = me_fd me, out_data = me_data me\<rparr>
      else if 0 \<le> me_fd me
        then \<lparr>out_rc = me_fd me, out_os = w, out_fd = me_fd me, out_data = me_data me\<rparr>
      else
        (case open_file w EPOLLIN of
           (fd, w1) \<Rightarrow>
             \<lparr>out_rc = (if fd < 0 then - int (os_errno w1) else fd), out_os = w1,
              out_fd = fd, out_data = me_data me\<rparr>))"

definition polled_close_fd :: drv_op where
  "polled_close_fd w mn me =
     \<lparr>out_rc = 0, out_os = (if 0 \<le> me_fd me then snd (close w (me_fd me)) else w),
      out_fd = - 1, out_data = me_data me\<rparr>"

definition polled_process_event :: drv_op where
  "polled_process_event w mn me =
     \<lparr>out_rc = (if me_fd me < 0 then - int EINVAL else 0), out_os = w,
      out_fd = me_fd me, out_data = me_data me\<rparr>"

definition polled_opers :: monitor_opers where
  "polled_opers =
     \<lparr>op_get_fd = polled_get_fd, op_close_fd = polled_close_fd, op_free_data = None,
      op_process_event = polled_process_event, op_next_fs = None\<rparr>"

text \<open>
  Modelled from the spec: the driver of the rich attach/detach channel. Processing an
  event reads the notification (the descriptor is no longer readable afterwards) and
  keeps the number of detail records in the private data; the detail operation yields
  one record per call and then "no more records" (1).
\<close>

definition rich_process_event :: drv_op where
  "rich_process_event w mn me =
     (if me_fd me < 0
        then \<lparr>out_rc = - int EINVAL, out_os = w, out_fd = me_fd me, out_data = me_data me\<rparr>
      else \<lparr>out_rc = 0, out_os = fd_store w (me_fd me) (Plain 0), out_fd = me_fd me, out_data = 1\<rparr>)"

definition rich_next_fs :: "os \<Rightarrow> libmnt_monitor \<Rightarrow> monitor_entry \<Rightarrow> libmnt_fs \<Rightarrow> drv_out \<times> libmnt_fs" where
  "rich_next_fs w mn me fs =
     (if me_data me = 0
        then (\<lparr>out_rc = 1, out_os = w, out_fd = me_fd me, out_data = 0\<rparr>, fs)
      else (\<lparr>out_rc = 0, out_os = w, out_fd = me_fd me, out_data = me_data me - 1\<rparr>, 100 + me_data me))"

definition rich_opers :: monitor_opers where
  "rich_opers =
     \<lparr>op_get_fd = polled_get_fd, op_close_fd = polled_close_fd, op_free_data = None,
      op_process_event = rich_process_event, op_next_fs = Some rich_next_fs\<rparr>"

definition sample_opers :: opers_table where
  "sample_opers p = (if p = 0 then polled_opers else rich_opers)"

text \<open>A process with the three standard descriptors open.\<close>

definition sample_os :: os where
  "sample_os =
     \<lparr>os_errno = 0, os_fds = [(0, Plain 0), (1, Plain 0), (2, Plain 0)], os_nofile = 16,
      os_max_user_watches = 8, os_sigpending = False\<rparr>"

definition polled_entry :: monitor_entry where
  "polled_entry =
     \<lparr>me_fd = - 1, me_id = - 1, me_path = ''/proc/self/mountinfo'', me_type = 2,
      me_events = EPOLLIN OR EPOLLET, me_opers = 0, me_data = 0,
      me_enabled = False, me_active = False\<rparr>"

definition rich_entry :: monitor_entry where
  "rich_entry =
     \<lparr>me_fd = - 1, me_id = - 1, me_path = ''/'', me_type = 3,
      me_events = EPOLLIN, me_opers = 1, me_data = 0,
      me_enabled = False, me_active = False\<rparr>"

text \<open>A monitor without epoll descriptor whose only entry (polled system table) is enabled.\<close>

definition enabled_monitor :: libmnt_monitor where
  "enabled_monitor = mnt_new_monitor\<lparr>mn_ents := [polled_entry\<lparr>me_enabled := True\<rparr>]\<rparr>"




text \<open>
  A process whose monitor has its epoll instance (descriptor 3) and one rich-channel
  entry (descriptor 4, registered), in three states: a notification waits in the
  operating system (\<open>pending_os\<close>); the event has been accepted and the entry is active
  (\<open>active_monitor\<close>); the event has been reported by \<^verbatim>\<open>mnt_monitor_next_change\<close>,
  with one detail record left (\<open>reported_os\<close>, \<open>reported_monitor\<close>).
\<close>

definition pending_os :: os where
  "pending_os =
     \<lparr>os_errno = 0,
      os_fds = [(0, Plain 0), (1, Plain 0), (2, Plain 0),
                (3, EventPoll \<lparr>ep_items = [(4, \<lparr>ev_events = EPOLLIN, ev_ptr = Some 0\<rparr>)],
                               ep_rdllist = [4]\<rparr>),
                (4, Plain EPOLLIN)],
      os_nofile = 16, os_max_user_watches = 8, os_sigpending = False\<rparr>"

definition active_monitor :: libmnt_monitor where
  "active_monitor =
     \<lparr>mn_refcount = 1, mn_fd = 3,
      mn_ents = [rich_entry\<lparr>me_fd := 4, me_data := 1, me_enabled := True, me_active := True\<rparr>],
      mn_last = None, mn_kernel_veiled = False\<rparr>"

definition reported_os :: os where
  "reported_os =
     \<lparr>os_errno = 0,
      os_fds = [(0, Plain 0), (1, Plain 0), (2, Plain 0),
                (3, EventPoll \<lparr>ep_items = [(4, \<lparr>ev_events = EPOLLIN, ev_ptr = Some 0\<rparr>)],
                               ep_rdllist = []\<rparr>),
                (4, Plain 0)],
      os_nofile = 16, os_max_user_watches = 8, os_sigpending = False\<rparr>"

definition reported_monitor :: libmnt_monitor where
  "reported_monitor =
     \<lparr>mn_refcount = 1, mn_fd = 3,
      mn_ents = [rich_entry\<lparr>me_fd := 4, me_data := 1, me_enabled := True\<rparr>],
      mn_last = Some 0, mn_kernel_veiled = False\<rparr>"

text \<open>
  A process whose monitor has its epoll instance (descriptor 3, nothing registered) and
  one rich-channel entry that has been disabled: the descriptor of the entry (4) is
  still open, and a notification has arrived on it since.
\<close>

definition missed_os :: os where
  "missed_os =
     \<lparr>os_errno = 0,
      os_fds = [(0, Plain 0), (1, Plain 0), (2, Plain 0),
                (3, EventPoll \<lparr>ep_items = [], ep_rdllist = []\<rparr>),
                (4, Plain EPOLLIN)],
      os_nofile = 16, os_max_user_watches = 8, os_sigpending = False\<rparr>"

definition disabled_monitor :: libmnt_monitor where
  "disabled_monitor =
     \<lparr>mn_refcount = 1, mn_fd = 3,
      mn_ents = [rich_entry\<lparr>me_fd := 4, me_data := 1\<rparr>],
      mn_last = None, mn_kernel_veiled = False\<rparr>"

text \<open>The two loops are evaluated with their unfolding equations.\<close>

declare drain_events.simps [code]
declare read_epoll_events.simps [code]

subsection \<open>Predicates of the statements\<close>



text \<open>The epoll instance \<open>epfd\<close> exists and has nothing on its ready list.\<close>

definition quiet :: "os \<Rightarrow> int \<Rightarrow> bool" where
  "quiet w epfd = (case fd_lookup w epfd of Some (EventPoll ep) \<Rightarrow> ep_rdllist ep = [] | _ \<Rightarrow> False)"

text \<open>
  The contract of a driver's \<^verbatim>\<open>op_get_fd\<close> that \<^verbatim>\<open>monitor_modify_epoll\<close> relies on:
  for an enabled entry, a call that fails leaves an error number (the procedure returns
  \<^verbatim>\<open>-errno\<close>) and a call that succeeds returns the descriptor it leaves in the entry
  (the procedure registers the one and later removes the other); no call touches an
  epoll instance.
\<close>

definition get_fd_failure_sets_errno :: "opers_table \<Rightarrow> bool" where
  "get_fd_failure_sets_errno ops =
     (\<forall>p w mn me. me_enabled me \<and> out_rc (op_get_fd (ops p) w mn me) < 0 \<longrightarrow>
        0 < os_errno (out_os (op_get_fd (ops p) w mn me)))"


definition get_fd_keeps_epoll :: "opers_table \<Rightarrow> bool" where
  "get_fd_keeps_epoll ops =
     (\<forall>p w mn me epfd ep. fd_lookup w epfd = Some (EventPoll ep) \<longrightarrow>
        fd_lookup (out_os (op_get_fd (ops p) w mn me)) epfd = Some (EventPoll ep))"


text \<open>The postcondition of \<^verbatim>\<open>read_epoll_events\<close> on the monitor \<open>mn\<close> it was called with.\<close>

definition rd_post :: "libmnt_monitor \<Rightarrow> int \<times> nat option \<times> os \<times> libmnt_monitor \<Rightarrow> bool" where
  "rd_post mn y =
     (case y of (rc, act, w', mn') \<Rightarrow>
        mn_fd mn' = mn_fd mn \<and> mn_last mn' = mn_last mn \<and>
        length (mn_ents mn') = length (mn_ents mn) \<and>
        (rc = 0 \<or> rc = 1 \<or> rc < 0) \<and>
        (rc = 0 \<longrightarrow> (\<exists>i. act = Some i \<and> i < length (mn_ents mn') \<and> me_active (mn_ents mn' ! i))) \<and>
        (rc \<noteq> 0 \<longrightarrow> act = None))"

text \<open>Every notification on the ready list that would be delivered is edge-triggered.\<close>

definition edge_only :: "os \<Rightarrow> (int \<times> epoll_event) list \<Rightarrow> int list \<Rightarrow> bool" where
  "edge_only w items rdl =
     (\<forall>f \<in> set rdl. \<forall>ev. map_of items f = Some ev \<and> ep_revents w ev f \<noteq> 0 \<longrightarrow>
        ev_events ev AND EPOLLET \<noteq> 0)"

text \<open>
  A level-triggered registration of the epoll instance \<open>epfd\<close> is on the ready list
  with a wanted condition pending.
\<close>

definition level_pending :: "os \<Rightarrow> int \<Rightarrow> bool" where
  "level_pending w epfd =
     (case fd_lookup w epfd of
        Some (EventPoll ep) \<Rightarrow>
          (\<exists>f \<in> set (ep_rdllist ep).
             case map_of (ep_items ep) f of
               None \<Rightarrow> False
             | Some ev \<Rightarrow> ev_events ev AND EPOLLET = 0 \<and> ep_revents w ev f \<noteq> 0)
      | _ \<Rightarrow> False)"

text \<open>Every registration of the epoll instance \<open>epfd\<close> is edge-triggered.\<close>

definition edge_triggered_only :: "os \<Rightarrow> int \<Rightarrow> bool" where
  "edge_triggered_only w epfd =
     (case fd_lookup w epfd of
        Some (EventPoll ep) \<Rightarrow> (\<forall>ev \<in> snd ` set (ep_items ep). ev_events ev AND EPOLLET \<noteq> 0)
      | _ \<Rightarrow> False)"


section \<open>Facts about the operating system\<close>

lemma sys_fail_simps:
  "fst (sys_fail w e) = - 1" "os_errno (snd (sys_fail w e)) = e" "os_fds (snd (sys_fail w e)) = os_fds w"
  by (simp_all add: sys_fail_def)

lemma epoll_ctl_failure_errno:
  assumes "epoll_ctl w epfd opn fd evo = (r, w1)" and "r < 0"
  shows "0 < os_errno w1"
  using assms
  by (auto simp: epoll_ctl_def sys_fail_def split: option.splits ofile.splits if_splits epoll_op.splits)

lemma epoll_wait_result:
  assumes "epoll_wait w epfd timeout = Some (r, p, w1)"
  shows "r = 1 \<or> r = 0 \<or> (r = - 1 \<and> 0 < os_errno w1)"
  using assms
  by (auto simp: epoll_wait_def split: option.splits ofile.splits if_splits prod.splits)


lemma epoll_create1_result:
  assumes "epoll_create1 w = (fd, w1)"
  shows "(fd = - 1 \<and> 0 < os_errno w1) \<or> 0 \<le> fd"
  using assms by (auto simp: epoll_create1_def sys_fail_def split: option.splits)

lemma fd_lookup_store: "fd_lookup (fd_store w k v) k' = (if k' = k then Some v else fd_lookup w k')"
  by (simp add: fd_lookup_def fd_store_def update_conv')

lemma fd_store_same: "fd_lookup w k = Some v \<Longrightarrow> fd_store w k v = w"
  by (simp add: fd_lookup_def fd_store_def update_triv)

lemma ep_scan_none: "ep_scan w items rdl = (None, rdl') \<Longrightarrow> rdl' = []"
  by (induction rdl) (auto split: option.splits if_splits)

lemma epoll_wait_quiet:
  assumes "quiet w epfd"
  shows "epoll_wait w epfd 0 = Some (0, None, w)"
proof -
  from assms obtain ep where ep: "fd_lookup w epfd = Some (EventPoll ep)" "ep_rdllist ep = []"
    by (auto simp: quiet_def split: option.splits ofile.splits)
  from ep(2) have "ep\<lparr>ep_rdllist := []\<rparr> = ep" by (cases ep) simp
  with ep show ?thesis
    by (simp add: epoll_wait_def fd_store_same)
qed

lemma epoll_wait_zero_step:
  assumes "fd_lookup w epfd = Some (EventPoll ep)" and "epoll_wait w epfd 0 = Some (rc, ptr, w')"
  shows "(0 < rc \<and> (\<exists>ep'. fd_lookup w' epfd = Some (EventPoll ep'))) \<or> (rc = 0 \<and> quiet w' epfd)"
proof -
  obtain evo rdl where sc: "ep_scan w (ep_items ep) (ep_rdllist ep) = (evo, rdl)"
    by (cases "ep_scan w (ep_items ep) (ep_rdllist ep)") auto
  show ?thesis
  proof (cases evo)
    case None
    with sc have "rdl = []" by (auto dest: ep_scan_none)
    with assms sc None show ?thesis
      by (auto simp: epoll_wait_def fd_lookup_store quiet_def)
  next
    case (Some ev)
    with assms sc show ?thesis
      by (auto simp: epoll_wait_def fd_lookup_store)
  qed
qed

lemma drain_events_quiet:
  assumes ret: "drain_events w0 epfd0 = Some w0'" and ep0: "fd_lookup w0 epfd0 = Some (EventPoll ep0)"
  shows "quiet w0' epfd0"
proof -
  have "(\<exists>ep. fd_lookup w0 epfd0 = Some (EventPoll ep)) \<longrightarrow> quiet w0' epfd0"
  proof (rule drain_events.raw_induct
      [where P = "\<lambda>w epfd w'. (\<exists>ep. fd_lookup w epfd = Some (EventPoll ep)) \<longrightarrow> quiet w' epfd", OF _ ret])
    fix rec :: "os \<Rightarrow> int \<Rightarrow> os option" and w :: os and epfd :: int and w' :: os
    assume IH: "\<And>w epfd w'. rec w epfd = Some w' \<Longrightarrow>
        (\<exists>ep. fd_lookup w epfd = Some (EventPoll ep)) \<longrightarrow> quiet w' epfd"
    assume body: "(case epoll_wait w epfd 0 of
        None \<Rightarrow> None
      | Some (rc, ptr, w') \<Rightarrow> if 0 < rc then rec w' epfd else Some w') = Some w'"
    show "(\<exists>ep. fd_lookup w epfd = Some (EventPoll ep)) \<longrightarrow> quiet w' epfd"
    proof
      assume "\<exists>ep. fd_lookup w epfd = Some (EventPoll ep)"
      then obtain ep where ep: "fd_lookup w epfd = Some (EventPoll ep)" ..
      from body obtain rc ptr w1 where ew: "epoll_wait w epfd 0 = Some (rc, ptr, w1)"
        by (cases "epoll_wait w epfd 0") auto
      from epoll_wait_zero_step [OF ep ew]
      show "quiet w' epfd"
      proof
        assume a: "0 < rc \<and> (\<exists>ep'. fd_lookup w1 epfd = Some (EventPoll ep'))"
        with body ew have "rec w1 epfd = Some w'" by simp
        from IH [OF this] a show ?thesis by simp
      next
        assume "rc = 0 \<and> quiet w1 epfd"
        with body ew show ?thesis by simp
      qed
    qed
  qed
  with ep0 show ?thesis by blast
qed

lemma map_of_in_keys: "map_of al k = Some v \<Longrightarrow> k \<in> fst ` set al"
  by (force dest: map_of_SomeD)

lemma epoll_ctl_add_instance:
  assumes "epoll_ctl w epfd EPOLL_CTL_ADD fd (Some ev) = (r, w2)"
    and "\<not> (r < 0 \<and> os_errno w2 \<noteq> EEXIST)"
  shows "\<exists>ep. fd_lookup w2 epfd = Some (EventPoll ep) \<and> fd \<in> fst ` set (ep_items ep)"
proof (cases "fd_lookup w epfd")
  case None
  with assms show ?thesis by (auto simp: epoll_ctl_def sys_fail_def)
next
  case (Some f)
  show ?thesis
  proof (cases f)
    case (Plain m)
    with assms Some show ?thesis by (auto simp: epoll_ctl_def sys_fail_def split: if_splits)
  next
    case (EventPoll ep)
    show ?thesis
    proof (cases "map_of (ep_items ep) fd")
      case (Some ev')
      then have "fd \<in> fst ` set (ep_items ep)" by (rule map_of_in_keys)
      moreover from assms \<open>fd_lookup w epfd = Some f\<close> EventPoll Some
      have "fd_lookup w2 epfd = Some (EventPoll ep)"
        by (auto simp: epoll_ctl_def sys_fail_def fd_lookup_def split: if_splits)
      ultimately show ?thesis by blast
    next
      case None
      with assms \<open>fd_lookup w epfd = Some f\<close> EventPoll show ?thesis
        by (auto simp: epoll_ctl_def sys_fail_def fd_lookup_store split: if_splits)
    qed
  qed
qed


lemma epoll_create1_quiet:
  assumes "epoll_create1 w = (fd, w1)" and "0 \<le> fd"
  shows "quiet w1 fd"
  using assms
  by (auto simp: epoll_create1_def sys_fail_def quiet_def fd_lookup_store split: option.splits)















lemma ep_scan_edge:
  assumes "edge_only w items rdl" and "ep_scan w items rdl = (Some ev, rdl')"
  shows "length rdl' < length rdl \<and> set rdl' \<subseteq> set rdl"
  using assms
proof (induction rdl)
  case Nil
  then show ?case by simp
next
  case (Cons f rdl)
  from Cons.prems(1) have rest: "edge_only w items rdl" by (simp add: edge_only_def)
  show ?case
  proof (cases "map_of items f")
    case None
    with Cons.prems(2) have "ep_scan w items rdl = (Some ev, rdl')" by simp
    from Cons.IH [OF rest this] show ?thesis by auto
  next
    case (Some ev0)
    show ?thesis
    proof (cases "ep_revents w ev0 f = 0")
      case True
      with Cons.prems(2) Some have "ep_scan w items rdl = (Some ev, rdl')" by simp
      from Cons.IH [OF rest this] show ?thesis by auto
    next
      case False
      with Cons.prems(1) Some have "ev_events ev0 AND EPOLLET \<noteq> 0"
        by (auto simp: edge_only_def)
      with Cons.prems(2) Some False show ?thesis by auto
    qed
  qed
qed

lemma poll_mask_store_epoll:
  assumes "fd_lookup w epfd = Some (EventPoll ep)"
  shows "poll_mask (fd_store w epfd (EventPoll ep')) f = poll_mask w f"
  using assms by (simp add: poll_mask_def fd_lookup_store)

lemma edge_only_store:
  assumes "fd_lookup w epfd = Some (EventPoll ep)" and "edge_only w items rdl" and "set rdl' \<subseteq> set rdl"
  shows "edge_only (fd_store w epfd (EventPoll ep')) items rdl'"
  using assms(2,3)
  by (auto simp: edge_only_def ep_revents_def poll_mask_store_epoll [OF assms(1)])

text \<open>
  The drain loop of \<^verbatim>\<open>monitor_modify_epoll\<close> ends when every notification it can meet
  is edge-triggered. (A level-triggered descriptor that stays readable is delivered
  again by every \<^verbatim>\<open>epoll_wait\<close>, and the loop does not end.)
\<close>

lemma drain_events_terminates:
  assumes "fd_lookup w epfd = Some (EventPoll ep)" and "edge_only w (ep_items ep) (ep_rdllist ep)"
  shows "\<exists>w'. drain_events w epfd = Some w'"
  using assms
proof (induction "length (ep_rdllist ep)" arbitrary: w ep rule: less_induct)
  case less
  obtain evo rdl where sc: "ep_scan w (ep_items ep) (ep_rdllist ep) = (evo, rdl)"
    by (cases "ep_scan w (ep_items ep) (ep_rdllist ep)") auto
  show ?case
  proof (cases evo)
    case None
    with less.prems sc have "epoll_wait w epfd 0 = Some (0, None, fd_store w epfd (EventPoll (ep\<lparr>ep_rdllist := rdl\<rparr>)))"
      by (simp add: epoll_wait_def)
    then show ?thesis by (subst drain_events.simps) simp
  next
    case (Some ev)
    let ?ep' = "ep\<lparr>ep_rdllist := rdl\<rparr>"
    let ?w' = "fd_store w epfd (EventPoll ?ep')"
    from less.prems sc Some have ew: "epoll_wait w epfd 0 = Some (1, ev_ptr ev, ?w')"
      by (simp add: epoll_wait_def)
    from ep_scan_edge [OF less.prems(2) sc [unfolded Some]]
    have shorter: "length rdl < length (ep_rdllist ep)" and sub: "set rdl \<subseteq> set (ep_rdllist ep)"
      by simp_all
    have l': "fd_lookup ?w' epfd = Some (EventPoll ?ep')" by (simp add: fd_lookup_store)
    have e': "edge_only ?w' (ep_items ?ep') (ep_rdllist ?ep')"
      using edge_only_store [OF less.prems(1) less.prems(2) sub] by simp
    from less.hyps [of ?ep' ?w'] shorter l' e' obtain w'' where "drain_events ?w' epfd = Some w''"
      by auto
    with ew show ?thesis by (subst drain_events.simps) simp
  qed
qed


lemma edge_only_all:
  assumes "\<forall>ev \<in> snd ` set items. ev_events ev AND EPOLLET \<noteq> 0"
  shows "edge_only w items rdl"
  unfolding edge_only_def
proof (intro ballI allI impI)
  fix f ev
  assume "map_of items f = Some ev \<and> ep_revents w ev f \<noteq> 0"
  then have "(f, ev) \<in> set items" by (auto dest: map_of_SomeD)
  then have "ev \<in> snd ` set items" by force
  with assms show "ev_events ev AND EPOLLET \<noteq> 0" by blast
qed

lemma epoll_ctl_add_edge:
  assumes "fd_lookup w epfd = Some (EventPoll ep)"
    and "\<forall>e \<in> snd ` set (ep_items ep). ev_events e AND EPOLLET \<noteq> 0"
    and "ev_events ev AND EPOLLET \<noteq> 0"
    and "epoll_ctl w epfd EPOLL_CTL_ADD fd (Some ev) = (r, w2)"
  shows "\<exists>ep2. fd_lookup w2 epfd = Some (EventPoll ep2) \<and>
           (\<forall>e \<in> snd ` set (ep_items ep2). ev_events e AND EPOLLET \<noteq> 0)"
proof (cases "r < 0")
  case True
  with assms(1,4) have "fd_lookup w2 epfd = Some (EventPoll ep)"
    by (auto simp: epoll_ctl_def sys_fail_def fd_lookup_def split: if_splits)
  with assms(2) show ?thesis by blast
next
  case False
  with assms(1,4) have "w2 = fd_store w epfd (EventPoll
       \<lparr>ep_items = ep_items ep @ [(fd, ev)],
        ep_rdllist = (if ep_revents w ev fd \<noteq> 0 then ep_rdllist ep @ [fd] else ep_rdllist ep)\<rparr>)"
    by (auto simp: epoll_ctl_def sys_fail_def split: if_splits)
  then have "fd_lookup w2 epfd = Some (EventPoll
       \<lparr>ep_items = ep_items ep @ [(fd, ev)],
        ep_rdllist = (if ep_revents w ev fd \<noteq> 0 then ep_rdllist ep @ [fd] else ep_rdllist ep)\<rparr>)"
    by (simp add: fd_lookup_store)
  moreover have "\<forall>e \<in> snd ` set (ep_items ep @ [(fd, ev)]). ev_events e AND EPOLLET \<noteq> 0"
    using assms(2,3) by auto
  ultimately show ?thesis by simp
qed

lemma ep_scan_level:
  assumes "f \<in> set rdl" and "map_of items f = Some ev" and "ev_events ev AND EPOLLET = 0"
    and "ep_revents w ev f \<noteq> 0"
  shows "\<exists>ev' rdl'. ep_scan w items rdl = (Some ev', rdl') \<and> f \<in> set rdl'"
  using assms(1)
proof (induction rdl)
  case Nil
  then show ?case by simp
next
  case (Cons g rdl)
  show ?case
  proof (cases "g = f")
    case True
    with assms(2-4) show ?thesis by simp
  next
    case False
    with Cons.prems have "f \<in> set rdl" by simp
    from Cons.IH [OF this] obtain ev' rdl' where
      ih: "ep_scan w items rdl = (Some ev', rdl')" "f \<in> set rdl'" by blast
    show ?thesis
    proof (cases "map_of items g")
      case None
      with ih show ?thesis by simp
    next
      case (Some evg)
      with ih \<open>f \<in> set rdl\<close> show ?thesis by simp
    qed
  qed
qed

lemma epoll_wait_level:
  assumes "level_pending w epfd"
  shows "\<exists>p w'. epoll_wait w epfd 0 = Some (1, p, w') \<and> level_pending w' epfd"
proof -
  from assms obtain ep f ev where ep: "fd_lookup w epfd = Some (EventPoll ep)"
    and f: "f \<in> set (ep_rdllist ep)" "map_of (ep_items ep) f = Some ev"
      "ev_events ev AND EPOLLET = 0" "ep_revents w ev f \<noteq> 0"
    by (auto simp: level_pending_def split: option.splits ofile.splits)
  from ep_scan_level [OF f] obtain ev' rdl' where
    sc: "ep_scan w (ep_items ep) (ep_rdllist ep) = (Some ev', rdl')" and in': "f \<in> set rdl'"
    by blast
  let ?w' = "fd_store w epfd (EventPoll (ep\<lparr>ep_rdllist := rdl'\<rparr>))"
  from ep sc have ew: "epoll_wait w epfd 0 = Some (1, ev_ptr ev', ?w')"
    by (simp add: epoll_wait_def)
  have "ep_revents ?w' ev f = ep_revents w ev f"
    by (simp add: ep_revents_def poll_mask_store_epoll [OF ep])
  with f in' have "level_pending ?w' epfd"
    by (auto simp: level_pending_def fd_lookup_store intro!: bexI [of _ f])
  with ew show ?thesis by blast
qed

text \<open>
  The drain loop of \<^verbatim>\<open>monitor_modify_epoll\<close> does not return while a level-triggered
  registration on the ready list has a wanted condition pending: \<^verbatim>\<open>epoll_wait\<close> reports
  it again at every call.
\<close>

lemma drain_events_spins:
  assumes "level_pending w0 epfd0"
  shows "drain_events w0 epfd0 = None"
proof (cases "drain_events w0 epfd0")
  case None
  then show ?thesis .
next
  case (Some w0')
  have "\<not> level_pending w0 epfd0"
  proof (rule drain_events.raw_induct
      [where P = "\<lambda>w epfd w'. \<not> level_pending w epfd", OF _ Some])
    fix rec :: "os \<Rightarrow> int \<Rightarrow> os option" and w :: os and epfd :: int and w' :: os
    assume IH: "\<And>w epfd w'. rec w epfd = Some w' \<Longrightarrow> \<not> level_pending w epfd"
    assume body: "(case epoll_wait w epfd 0 of
        None \<Rightarrow> None
      | Some (rc, ptr, w') \<Rightarrow> if 0 < rc then rec w' epfd else Some w') = Some w'"
    show "\<not> level_pending w epfd"
    proof
      assume "level_pending w epfd"
      from epoll_wait_level [OF this] obtain p w1 where
        ew: "epoll_wait w epfd 0 = Some (1, p, w1)" and lp: "level_pending w1 epfd" by blast
      from body ew have "rec w1 epfd = Some w'" by simp
      from IH [OF this] lp show False by simp
    qed
  qed
  with assms show ?thesis by simp
qed

lemma epoll_wait_items:
  assumes "epoll_wait w epfd timeout = Some (rc, ptr, w')" and "fd_lookup w epfd = Some (EventPoll ep)"
  shows "\<exists>ep'. fd_lookup w' epfd = Some (EventPoll ep') \<and> ep_items ep' = ep_items ep"
  using assms
  by (auto simp: epoll_wait_def fd_lookup_store fd_lookup_def fd_store_def update_conv'
      split: prod.splits option.splits if_splits)

lemma drain_events_items:
  assumes ret: "drain_events w0 epfd0 = Some w0'" and ep0: "fd_lookup w0 epfd0 = Some (EventPoll ep0)"
  shows "\<exists>ep'. fd_lookup w0' epfd0 = Some (EventPoll ep') \<and> ep_items ep' = ep_items ep0"
proof -
  have "\<forall>ep. fd_lookup w0 epfd0 = Some (EventPoll ep) \<longrightarrow>
          (\<exists>ep'. fd_lookup w0' epfd0 = Some (EventPoll ep') \<and> ep_items ep' = ep_items ep)"
  proof (rule drain_events.raw_induct
      [where P = "\<lambda>w epfd w'. \<forall>ep. fd_lookup w epfd = Some (EventPoll ep) \<longrightarrow>
          (\<exists>ep'. fd_lookup w' epfd = Some (EventPoll ep') \<and> ep_items ep' = ep_items ep)", OF _ ret])
    fix rec :: "os \<Rightarrow> int \<Rightarrow> os option" and w :: os and epfd :: int and w' :: os
    assume IH: "\<And>w epfd w'. rec w epfd = Some w' \<Longrightarrow>
        \<forall>ep. fd_lookup w epfd = Some (EventPoll ep) \<longrightarrow>
          (\<exists>ep'. fd_lookup w' epfd = Some (EventPoll ep') \<and> ep_items ep' = ep_items ep)"
    assume body: "(case epoll_wait w epfd 0 of
        None \<Rightarrow> None
      | Some (rc, ptr, w') \<Rightarrow> if 0 < rc then rec w' epfd else Some w') = Some w'"
    show "\<forall>ep. fd_lookup w epfd = Some (EventPoll ep) \<longrightarrow>
          (\<exists>ep'. fd_lookup w' epfd = Some (EventPoll ep') \<and> ep_items ep' = ep_items ep)"
    proof (intro allI impI)
      fix ep assume ep: "fd_lookup w epfd = Some (EventPoll ep)"
      from body obtain rc ptr w1 where ew: "epoll_wait w epfd 0 = Some (rc, ptr, w1)"
        by (cases "epoll_wait w epfd 0") auto
      from epoll_wait_items [OF ew ep] obtain ep1 where
        ep1: "fd_lookup w1 epfd = Some (EventPoll ep1)" "ep_items ep1 = ep_items ep" by blast
      show "\<exists>ep'. fd_lookup w' epfd = Some (EventPoll ep') \<and> ep_items ep' = ep_items ep"
      proof (cases "0 < rc")
        case True
        with body ew have "rec w1 epfd = Some w'" by simp
        from IH [OF this] ep1 show ?thesis by auto
      next
        case False
        with body ew have "w' = w1" by simp
        with ep1 show ?thesis by simp
      qed
    qed
  qed
  with ep0 show ?thesis by blast
qed

lemma and_or_absorb: "(x AND (a OR b)) AND b = x AND b" for x :: "32 word"
  by (auto simp: bit_eq_iff bit_and_iff bit_or_iff)

lemma edge_triggered_onlyD:
  assumes "edge_triggered_only w epfd"
  obtains ep where "fd_lookup w epfd = Some (EventPoll ep)"
    and "\<forall>ev \<in> snd ` set (ep_items ep). ev_events ev AND EPOLLET \<noteq> 0"
  using assms by (auto simp: edge_triggered_only_def split: option.splits ofile.splits)

lemma edge_triggered_onlyI:
  assumes "fd_lookup w epfd = Some (EventPoll ep)"
    and "\<forall>ev \<in> snd ` set (ep_items ep). ev_events ev AND EPOLLET \<noteq> 0"
  shows "edge_triggered_only w epfd"
  using assms by (simp add: edge_triggered_only_def)

lemma epoll_create1_edge:
  assumes "epoll_create1 w = (fd, w1)" and "0 \<le> fd"
  shows "edge_triggered_only w1 fd"
  using assms
  by (auto simp: epoll_create1_def sys_fail_def edge_triggered_only_def fd_lookup_store
      split: option.splits)

section \<open>Facts about the monitor\<close>

lemma put_entry_simps:
  "mn_fd (put_entry mn i me) = mn_fd mn"
  "mn_last (put_entry mn i me) = mn_last mn"
  "mn_refcount (put_entry mn i me) = mn_refcount mn"
  "mn_kernel_veiled (put_entry mn i me) = mn_kernel_veiled mn"
  "length (mn_ents (put_entry mn i me)) = length (mn_ents mn)"
  "mn_ents (put_entry mn i me) = (mn_ents mn)[i := me]"
  by (simp_all add: put_entry_def)

text \<open>
  What \<^verbatim>\<open>read_epoll_events\<close> can return, and what it leaves alone: the result is 0, 1
  or negative; \<^verbatim>\<open>*act\<close> is an active entry exactly when the result is 0; the epoll
  descriptor, the back-reference and the number of entries do not change.
\<close>

lemma rd_post_put_entry: "rd_post (put_entry mn i me) y \<Longrightarrow> rd_post mn y"
  by (cases y) (auto simp: rd_post_def put_entry_simps)

lemma read_epoll_events_post:
  assumes ret: "read_epoll_events ops0 w0 mn0 timeout0 = Some y0"
  shows "rd_post mn0 y0"
proof (rule read_epoll_events.raw_induct [where P = "\<lambda>ops w mn timeout y. rd_post mn y", OF _ ret])
  fix rec :: "opers_table \<Rightarrow> os \<Rightarrow> libmnt_monitor \<Rightarrow> int \<Rightarrow>
                (int \<times> nat option \<times> os \<times> libmnt_monitor) option"
    and ops :: opers_table and w :: os and mn :: libmnt_monitor and timeout :: int
    and y :: "int \<times> nat option \<times> os \<times> libmnt_monitor"
  assume IH: "\<And>ops w mn timeout y. rec ops w mn timeout = Some y \<Longrightarrow> rd_post mn y"
  assume body: "(case epoll_wait w (mn_fd mn) timeout of
        None \<Rightarrow> None
      | Some (rc, ptr, w1) \<Rightarrow>
          if rc < 0 then Some (- int (os_errno w1), None, w1, mn)
          else if rc = 0 then Some (1, None, w1, mn)
          else
            (case ptr of
               None \<Rightarrow> Some (- int EINVAL, None, w1, mn)
             | Some i \<Rightarrow>
                 if length (mn_ents mn) \<le> i then None
                 else
                   let me = mn_ents mn ! i;
                       out = op_process_event (ops (me_opers me)) w1 mn me;
                       me1 = drv_entry me out;
                       mn1 = put_entry mn i me1
                   in
                   if out_rc out < 0 then Some (out_rc out, None, out_os out, mn1)
                   else if out_rc out = 0
                     then Some (0, Some i, out_os out, put_entry mn1 i (me1\<lparr>me_active := True\<rparr>))
                   else rec ops (out_os out) mn1 timeout)) = Some y"
  show "rd_post mn y"
  proof (cases "epoll_wait w (mn_fd mn) timeout")
    case None
    with body show "rd_post mn y" by simp
  next
    case (Some res)
    obtain r p w1 where res: "res = (r, p, w1)" by (cases res) auto
    from epoll_wait_result [OF Some [unfolded res]]
    have r: "r = 1 \<or> r = 0 \<or> (r = - 1 \<and> 0 < os_errno w1)" .
    show "rd_post mn y"
    proof (cases "r < 0")
      case True
      with r have "0 < os_errno w1" by auto
      with body Some res True show "rd_post mn y" by (auto simp: rd_post_def)
    next
      case False
      show "rd_post mn y"
      proof (cases "r = 0")
        case True
        with body Some res show "rd_post mn y" by (auto simp: rd_post_def)
      next
        case r1: False
        show "rd_post mn y"
        proof (cases p)
          case None
          with body Some res False r1 show "rd_post mn y" by (auto simp: rd_post_def)
        next
          case (Some i)
          note p = this
          show "rd_post mn y"
          proof (cases "length (mn_ents mn) \<le> i")
            case True
            with body \<open>epoll_wait w (mn_fd mn) timeout = Some res\<close> res False r1 p
            show "rd_post mn y" by simp
          next
            case len: False
            define me where "me = mn_ents mn ! i"
            define out where "out = op_process_event (ops (me_opers me)) w1 mn me"
            define me1 where "me1 = drv_entry me out"
            define mn1 where "mn1 = put_entry mn i me1"
            from body \<open>epoll_wait w (mn_fd mn) timeout = Some res\<close> res False r1 p len
            have body': "(if out_rc out < 0 then Some (out_rc out, None, out_os out, mn1)
                 else if out_rc out = 0
                   then Some (0, Some i, out_os out, put_entry mn1 i (me1\<lparr>me_active := True\<rparr>))
                 else rec ops (out_os out) mn1 timeout) = Some y"
              unfolding me_def out_def me1_def mn1_def
              by (simp add: Let_def split del: if_split)
            show "rd_post mn y"
            proof (cases "out_rc out < 0")
              case True
              with body' have "y = (out_rc out, None, out_os out, mn1)" by simp
              with True show "rd_post mn y" by (simp add: rd_post_def mn1_def put_entry_simps)
            next
              case nneg: False
              show "rd_post mn y"
              proof (cases "out_rc out = 0")
                case True
                with body' have "y = (0, Some i, out_os out, put_entry mn1 i (me1\<lparr>me_active := True\<rparr>))"
                  by simp
                with len show "rd_post mn y"
                  by (simp add: rd_post_def mn1_def put_entry_simps)
              next
                case False
                with body' nneg have "rec ops (out_os out) mn1 timeout = Some y" by simp
                from IH [OF this] have "rd_post mn1 y" .
                then show "rd_post mn y" unfolding mn1_def by (rule rd_post_put_entry)
              qed
            qed
          qed
        qed
      qed
    qed
  qed
qed

lemma read_epoll_events_frame:
  assumes "read_epoll_events ops w mn timeout = Some (rc, act, w', mn')"
  shows "mn_fd mn' = mn_fd mn \<and> mn_last mn' = mn_last mn \<and>
         length (mn_ents mn') = length (mn_ents mn) \<and>
         (rc = 0 \<or> rc = 1 \<or> rc < 0) \<and>
         (rc = 0 \<longrightarrow> (\<exists>i. act = Some i \<and> i < length (mn_ents mn') \<and> me_active (mn_ents mn' ! i))) \<and>
         (rc \<noteq> 0 \<longrightarrow> act = None)"
  using read_epoll_events_post [OF assms] by (auto simp: rd_post_def)

lemma drv_entry_simps:
  "me_enabled (drv_entry me out) = me_enabled me"
  "me_active (drv_entry me out) = me_active me"
  "me_events (drv_entry me out) = me_events me"
  "me_path (drv_entry me out) = me_path me"
  "me_type (drv_entry me out) = me_type me"
  "me_id (drv_entry me out) = me_id me"
  "me_opers (drv_entry me out) = me_opers me"
  "me_fd (drv_entry me out) = out_fd out"
  "me_data (drv_entry me out) = out_data out"
  by (simp_all add: drv_entry_def)

lemma put_entry_twice: "put_entry (put_entry mn i a) i b = put_entry mn i b"
  by (simp add: put_entry_def)

text \<open>The shape of the monitor after the registration procedure.\<close>

lemma modify_epoll_shape:
  assumes "monitor_modify_epoll ops w mn i en = Some (rc, w', mn')"
  shows "i < length (mn_ents mn) \<and> rc \<le> 0 \<and>
         (\<exists>fd' data'. mn' = put_entry mn i
            ((mn_ents mn ! i)\<lparr>me_enabled := en, me_active := False, me_fd := fd', me_data := data'\<rparr>))"
proof -
  from assms have len: "i < length (mn_ents mn)"
    by (cases "length (mn_ents mn) \<le> i") (simp_all add: monitor_modify_epoll_def)
  define me where "me = (mn_ents mn ! i)\<lparr>me_enabled := en, me_active := False\<rparr>"
  define mn1 where "mn1 = put_entry mn i me"
  define out where "out = op_get_fd (ops (me_opers me)) w mn1 me"
  define mn2 where "mn2 = put_entry mn1 i (drv_entry me out)"
  have s1: "mn1 = put_entry mn i ((mn_ents mn ! i)\<lparr>me_enabled := en, me_active := False,
      me_fd := me_fd (mn_ents mn ! i), me_data := me_data (mn_ents mn ! i)\<rparr>)"
    by (simp add: mn1_def me_def)
  have s2: "mn2 = put_entry mn i ((mn_ents mn ! i)\<lparr>me_enabled := en, me_active := False,
      me_fd := out_fd out, me_data := out_data out\<rparr>)"
    by (simp add: mn2_def mn1_def me_def put_entry_twice drv_entry_def)
  from assms len have "rc \<le> 0 \<and> (mn' = mn1 \<or> mn' = mn2)"
    unfolding monitor_modify_epoll_def mn2_def mn1_def out_def me_def
    by (auto simp: Let_def split: if_splits prod.splits option.splits)
  with len s1 s2 show ?thesis by metis
qed

lemma modify_epoll_frame:
  assumes "monitor_modify_epoll ops w mn i en = Some (rc, w', mn')"
  shows "mn_fd mn' = mn_fd mn" "mn_last mn' = mn_last mn"
    "length (mn_ents mn') = length (mn_ents mn)" "rc \<le> 0" "i < length (mn_ents mn)"
    "j \<noteq> i \<Longrightarrow> mn_ents mn' ! j = mn_ents mn ! j"
    "me_enabled (mn_ents mn' ! i) = en" "\<not> me_active (mn_ents mn' ! i)"
    "me_events (mn_ents mn' ! i) = me_events (mn_ents mn ! i)"
    "me_path (mn_ents mn' ! i) = me_path (mn_ents mn ! i)"
    "me_type (mn_ents mn' ! i) = me_type (mn_ents mn ! i)"
    "me_opers (mn_ents mn' ! i) = me_opers (mn_ents mn ! i)"
  using modify_epoll_shape [OF assms] by (auto simp: put_entry_def)


lemma get_fd_entries_frame:
  assumes "get_fd_entries ops idxs w mn = Some (rc, w', mn')"
  shows "mn_fd mn' = mn_fd mn \<and> mn_last mn' = mn_last mn \<and>
         length (mn_ents mn') = length (mn_ents mn) \<and> rc \<le> 0"
  using assms
proof (induction idxs arbitrary: w mn)
  case Nil
  then show ?case by simp
next
  case (Cons i rest)
  show ?case
  proof (cases "length (mn_ents mn) \<le> i \<or> \<not> me_enabled (mn_ents mn ! i)")
    case True
    with Cons show ?thesis by (auto split: if_splits)
  next
    case False
    then have en: "\<not> length (mn_ents mn) \<le> i" "me_enabled (mn_ents mn ! i)" by auto
    show ?thesis
    proof (cases "monitor_modify_epoll ops w mn i True")
      case None
      with Cons.prems en show ?thesis by simp
    next
      case (Some res)
      obtain r w1 mn1 where res: "res = (r, w1, mn1)" by (cases res) auto
      note fr = modify_epoll_frame [OF Some [unfolded res]]
      show ?thesis
      proof (cases "r = 0")
        case True
        with Cons.prems en Some res have "get_fd_entries ops rest w1 mn1 = Some (rc, w', mn')"
          by simp
        from Cons.IH [OF this] fr(1-3) show ?thesis by simp
      next
        case False
        with Cons.prems en Some res have "rc = r" "mn' = mn1" by simp_all
        with fr(1-4) show ?thesis by simp
      qed
    qed
  qed
qed





lemma get_active_from_first:
  assumes "i < length ents" and "me_active (ents ! i)" and "\<forall>j < i. \<not> me_active (ents ! j)"
  shows "get_active_from ents k = Some (k + i)"
  using assms
proof (induction ents arbitrary: i k)
  case Nil
  then show ?case by simp
next
  case (Cons me rest)
  show ?case
  proof (cases i)
    case 0
    with Cons.prems show ?thesis by simp
  next
    case (Suc i')
    with Cons.prems have "\<not> me_active me" by auto
    moreover from Cons.prems Suc have "i' < length rest" "me_active (rest ! i')"
      "\<forall>j < i'. \<not> me_active (rest ! j)" by auto
    note Cons.IH [OF this, of "Suc k"]
    ultimately show ?thesis using Suc by simp
  qed
qed

lemma get_active_from_none:
  "\<forall>me \<in> set ents. \<not> me_active me \<Longrightarrow> get_active_from ents k = None"
  by (induction ents arbitrary: k) auto

lemma read_epoll_events_nothing:
  assumes "epoll_wait w (mn_fd mn) timeout = Some (0, p, w1)"
  shows "read_epoll_events ops w mn timeout = Some (1, None, w1, mn)"
  by (subst read_epoll_events.simps) (simp add: assms)

lemma get_fd_outcome:
  assumes "mn_fd mn < 0" and "mnt_monitor_get_fd ops w (Some mn) = Some (rc, w', mno')"
  shows "\<exists>mn'. mno' = Some mn' \<and>
           ((0 \<le> rc \<and> mn_fd mn' = rc \<and> rc = fst (epoll_create1 w)) \<or> (rc < 0 \<and> mn_fd mn' = - 1))"
proof -
  obtain fd0 wa where cr: "epoll_create1 w = (fd0, wa)" by (cases "epoll_create1 w") auto
  note crr = epoll_create1_result [OF cr]
  show ?thesis
  proof (cases "fd0 < 0")
    case True
    with crr have "fd0 = - 1" "0 < os_errno wa" by auto
    with assms cr show ?thesis by (auto simp: mnt_monitor_get_fd_def)
  next
    case False
    show ?thesis
    proof (cases "get_fd_entries ops [0..<length (mn_ents mn)] wa (mn\<lparr>mn_fd := fd0\<rparr>)")
      case None
      with assms cr False show ?thesis by (simp add: mnt_monitor_get_fd_def Let_def)
    next
      case (Some res)
      obtain rr wb mnb where res: "res = (rr, wb, mnb)" by (cases res) auto
      from get_fd_entries_frame [OF Some [unfolded res]]
      have fr: "mn_fd mnb = fd0" "rr \<le> 0" by simp_all
      from assms cr False Some res fr show ?thesis
        by (auto simp: mnt_monitor_get_fd_def Let_def split: if_splits)
    qed
  qed
qed

lemma modify_epoll_enable_quiet:
  assumes contract: "get_fd_failure_sets_errno ops" and fd: "0 \<le> mn_fd mn"
    and bits: "me_events (mn_ents mn ! i) AND (EPOLLIN OR EPOLLET) \<noteq> 0"
    and run: "monitor_modify_epoll ops w mn i True = Some (0, w', mn')"
  shows "quiet w' (mn_fd mn)"
proof -
  from run have len: "i < length (mn_ents mn)"
    by (cases "length (mn_ents mn) \<le> i") (simp_all add: monitor_modify_epoll_def)
  define me where "me = (mn_ents mn ! i)\<lparr>me_enabled := True, me_active := False\<rparr>"
  define mn1 where "mn1 = put_entry mn i me"
  define out where "out = op_get_fd (ops (me_opers me)) w mn1 me"
  define mn2 where "mn2 = put_entry mn1 i (drv_entry me out)"
  obtain r w2 where ctl: "epoll_ctl (out_os out) (mn_fd mn2) EPOLL_CTL_ADD (out_rc out)
      (Some \<lparr>ev_events = me_events me, ev_ptr = Some i\<rparr>) = (r, w2)"
    by (cases "epoll_ctl (out_os out) (mn_fd mn2) EPOLL_CTL_ADD (out_rc out)
      (Some \<lparr>ev_events = me_events me, ev_ptr = Some i\<rparr>)") auto
  have fds: "mn_fd mn1 = mn_fd mn" "mn_fd mn2 = mn_fd mn"
    by (simp_all add: mn1_def mn2_def put_entry_simps)
  have ev: "me_events (drv_entry me out) = me_events (mn_ents mn ! i)"
    by (simp add: drv_entry_simps me_def)
  have body: "(if out_rc out < 0 then Some (- int (os_errno (out_os out)), out_os out, mn2)
      else if r < 0 \<and> os_errno w2 \<noteq> EEXIST then Some (- int (os_errno w2), w2, mn2)
      else (case drain_events w2 (mn_fd mn2) of None \<Rightarrow> None | Some w3 \<Rightarrow> Some (0, w3, mn2)))
      = Some (0, w', mn')"
    using run len fd bits ctl fds ev
    unfolding monitor_modify_epoll_def mn2_def mn1_def out_def me_def
    by (simp add: Let_def split del: if_split cong: if_cong)
  have ok1: "\<not> out_rc out < 0"
  proof
    assume neg: "out_rc out < 0"
    with contract have "0 < os_errno (out_os out)"
      unfolding get_fd_failure_sets_errno_def out_def
      by (auto simp: me_def)
    with body neg show False by simp
  qed
  have ok2: "\<not> (r < 0 \<and> os_errno w2 \<noteq> EEXIST)"
  proof
    assume bad: "r < 0 \<and> os_errno w2 \<noteq> EEXIST"
    then have "r < 0" by simp
    from epoll_ctl_failure_errno [OF ctl this] have "0 < os_errno w2" .
    with body ok1 bad show False by simp
  qed
  from body ok1 ok2 have dr: "drain_events w2 (mn_fd mn2) = Some w'"
    by (auto split: option.splits)
  from epoll_ctl_add_instance [OF ctl ok2] obtain ep where
    "fd_lookup w2 (mn_fd mn2) = Some (EventPoll ep)" by blast
  from drain_events_quiet [OF dr this] fds show ?thesis by simp
qed

lemma wait_on_quiet:
  assumes "0 \<le> mn_fd mn" and "quiet w (mn_fd mn)"
  shows "mnt_monitor_wait ops w (Some mn) 0 = Some (0, w, Some mn)"
  using assms read_epoll_events_nothing [OF epoll_wait_quiet [OF assms(2)], of ops]
  by (simp add: mnt_monitor_wait_def)


lemma get_fd_entries_quiet:
  assumes contract: "get_fd_failure_sets_errno ops"
    and "0 \<le> mn_fd mn" and "quiet w (mn_fd mn)"
    and "\<forall>me \<in> set (mn_ents mn). me_enabled me \<longrightarrow> me_events me AND (EPOLLIN OR EPOLLET) \<noteq> 0"
    and "get_fd_entries ops idxs w mn = Some (0, w', mn')"
  shows "quiet w' (mn_fd mn)"
  using assms(2-)
proof (induction idxs arbitrary: w mn)
  case Nil
  then show ?case by simp
next
  case (Cons i rest)
  from Cons.prems(4) have len: "i < length (mn_ents mn)"
    by (cases "length (mn_ents mn) \<le> i") simp_all
  show ?case
  proof (cases "me_enabled (mn_ents mn ! i)")
    case False
    with Cons.prems len have "get_fd_entries ops rest w mn = Some (0, w', mn')" by simp
    from Cons.IH [OF Cons.prems(1-3) this] show ?thesis .
  next
    case True
    from len have mem: "mn_ents mn ! i \<in> set (mn_ents mn)" by simp
    with Cons.prems(3) True have bits: "me_events (mn_ents mn ! i) AND (EPOLLIN OR EPOLLET) \<noteq> 0"
      by blast
    from Cons.prems(4) len True obtain r w1 mn1 where
      step: "monitor_modify_epoll ops w mn i True = Some (r, w1, mn1)"
      by (cases "monitor_modify_epoll ops w mn i True") auto
    with Cons.prems(4) len True have r0: "r = 0" and rest: "get_fd_entries ops rest w1 mn1 = Some (0, w', mn')"
      by (auto split: if_splits)
    from modify_epoll_enable_quiet [OF contract Cons.prems(1) bits step [unfolded r0]]
    have q1: "quiet w1 (mn_fd mn)" .
    from modify_epoll_shape [OF step] obtain fd' data' where
      sh: "mn1 = put_entry mn i ((mn_ents mn ! i)\<lparr>me_enabled := True, me_active := False,
             me_fd := fd', me_data := data'\<rparr>)"
      by blast
    have fd1: "mn_fd mn1 = mn_fd mn" by (simp add: sh put_entry_simps)
    have inv: "\<forall>me \<in> set (mn_ents mn1). me_enabled me \<longrightarrow> me_events me AND (EPOLLIN OR EPOLLET) \<noteq> 0"
    proof
      fix me assume "me \<in> set (mn_ents mn1)"
      then have "me \<in> set (mn_ents mn) \<or>
          me = (mn_ents mn ! i)\<lparr>me_enabled := True, me_active := False, me_fd := fd', me_data := data'\<rparr>"
        unfolding sh put_entry_simps by (auto dest: set_update_subset_insert [THEN subsetD])
      with Cons.prems(3) bits show "me_enabled me \<longrightarrow> me_events me AND (EPOLLIN OR EPOLLET) \<noteq> 0"
        by auto
    qed
    from Cons.IH [of mn1 w1] Cons.prems(1) q1 inv rest fd1 show ?thesis by simp
  qed
qed

lemma get_fd_success_quiet:
  assumes contract: "get_fd_failure_sets_errno ops"
    and nofd: "mn_fd mn < 0"
    and bits: "\<forall>me \<in> set (mn_ents mn). me_enabled me \<longrightarrow> me_events me AND (EPOLLIN OR EPOLLET) \<noteq> 0"
    and run: "mnt_monitor_get_fd ops w (Some mn) = Some (rc, wa, Some mna)"
    and ok: "0 \<le> rc"
  shows "0 \<le> mn_fd mna \<and> quiet wa (mn_fd mna)"
proof -
  obtain fd w1 where cr: "epoll_create1 w = (fd, w1)" by (cases "epoll_create1 w") auto
  from epoll_create1_result [OF cr] run nofd ok cr have fdpos: "0 \<le> fd"
    by (cases "fd < 0") (auto simp: mnt_monitor_get_fd_def)
  from run nofd cr fdpos obtain r w2 mn2 where
    lp: "get_fd_entries ops [0..<length (mn_ents mn)] w1 (mn\<lparr>mn_fd := fd\<rparr>) = Some (r, w2, mn2)"
    by (cases "get_fd_entries ops [0..<length (mn_ents mn)] w1 (mn\<lparr>mn_fd := fd\<rparr>)")
       (auto simp: mnt_monitor_get_fd_def Let_def)
  from get_fd_entries_frame [OF lp] have fr: "mn_fd mn2 = fd" by simp
  from run nofd cr fdpos lp ok have r0: "r = 0" and res: "wa = w2" "mna = mn2"
    by (auto simp: mnt_monitor_get_fd_def Let_def split: if_splits)
  have "quiet w2 (mn_fd (mn\<lparr>mn_fd := fd\<rparr>))"
    using epoll_create1_quiet [OF cr fdpos] bits fdpos lp [unfolded r0]
    by (intro get_fd_entries_quiet [OF contract, of "mn\<lparr>mn_fd := fd\<rparr>" w1 _ w2 mn2]) simp_all
  with fr fdpos res show ?thesis by simp
qed










text \<open>
  With the descriptor field 0 the disabling branch of \<^verbatim>\<open>monitor_modify_epoll\<close>
  (\<^verbatim>\<open>else if (me->fd)\<close>) calls nothing: the operating system is left as it is.
\<close>

lemma modify_epoll_disable_zero:
  assumes "0 \<le> mn_fd mn" and "i < length (mn_ents mn)" and "me_fd (mn_ents mn ! i) = 0"
  shows "monitor_modify_epoll ops w mn i False =
           Some (0, w, put_entry mn i ((mn_ents mn ! i)\<lparr>me_enabled := False, me_active := False\<rparr>))"
  using assms by (simp add: monitor_modify_epoll_def Let_def put_entry_simps)

text \<open>
  \<^verbatim>\<open>monitor_modify_epoll\<close> returns when it enables an edge-triggered entry on an epoll
  instance whose registrations are all edge-triggered.
\<close>

lemma modify_epoll_enable_returns:
  assumes keep: "get_fd_keeps_epoll ops"
    and i: "i < length (mn_ents mn)"
    and inst: "fd_lookup w (mn_fd mn) = Some (EventPoll ep)"
    and edge: "\<forall>e \<in> snd ` set (ep_items ep). ev_events e AND EPOLLET \<noteq> 0"
    and et: "me_events (mn_ents mn ! i) AND EPOLLET \<noteq> 0"
  shows "\<exists>y. monitor_modify_epoll ops w mn i True = Some y"
proof -
  define me where "me = (mn_ents mn ! i)\<lparr>me_enabled := True, me_active := False\<rparr>"
  define mn1 where "mn1 = put_entry mn i me"
  define out where "out = op_get_fd (ops (me_opers me)) w mn1 me"
  define ev where "ev = \<lparr>ev_events = me_events me, ev_ptr = Some i\<rparr>"
  obtain r w2 where ctl: "epoll_ctl (out_os out) (mn_fd mn) EPOLL_CTL_ADD (out_rc out) (Some ev) = (r, w2)"
    by (cases "epoll_ctl (out_os out) (mn_fd mn) EPOLL_CTL_ADD (out_rc out) (Some ev)") auto
  from keep inst have inst1: "fd_lookup (out_os out) (mn_fd mn) = Some (EventPoll ep)"
    unfolding get_fd_keeps_epoll_def out_def by blast
  have "ev_events ev AND EPOLLET \<noteq> 0" using et by (simp add: ev_def me_def)
  from epoll_ctl_add_edge [OF inst1 edge this ctl] obtain ep2 where
    inst2: "fd_lookup w2 (mn_fd mn) = Some (EventPoll ep2)"
    and edge2: "\<forall>e \<in> snd ` set (ep_items ep2). ev_events e AND EPOLLET \<noteq> 0" by blast
  from drain_events_terminates [OF inst2 edge_only_all [OF edge2]]
  obtain w3 where dr: "drain_events w2 (mn_fd mn) = Some w3" by blast
  from i ctl dr show ?thesis
    unfolding monitor_modify_epoll_def me_def mn1_def out_def ev_def
    by (simp add: Let_def put_entry_def drv_entry_def)
qed


text \<open>
  Without the contract: when the driver fails and leaves no error number,
  \<^verbatim>\<open>return -errno\<close> is \<^verbatim>\<open>return 0\<close>, and the entry counts as registered.
\<close>

lemma modify_epoll_silent_failure:
  assumes "0 \<le> mn_fd mn" and "i < length (mn_ents mn)"
    and "me = (mn_ents mn ! i)\<lparr>me_enabled := True, me_active := False\<rparr>"
    and "out = op_get_fd (ops (me_opers me)) w (put_entry mn i me) me"
    and "out_rc out < 0" and "os_errno (out_os out) = 0"
  shows "monitor_modify_epoll ops w mn i True = Some (0, out_os out, put_entry mn i (drv_entry me out))"
  using assms(1,2,5,6) unfolding assms(3,4) monitor_modify_epoll_def
  by (simp add: Let_def put_entry_simps put_entry_twice)



text \<open>
  Enabling an edge-triggered entry on an epoll instance whose registrations are all
  edge-triggered returns and leaves such an instance.
\<close>

lemma modify_epoll_enable_edge:
  assumes keep: "get_fd_keeps_epoll ops"
    and i: "i < length (mn_ents mn)"
    and inst: "edge_triggered_only w (mn_fd mn)"
    and et: "me_events (mn_ents mn ! i) AND EPOLLET \<noteq> 0"
  shows "\<exists>rc w' mn'. monitor_modify_epoll ops w mn i True = Some (rc, w', mn') \<and>
           edge_triggered_only w' (mn_fd mn)"
proof -
  from inst obtain ep where ep: "fd_lookup w (mn_fd mn) = Some (EventPoll ep)"
    and edge: "\<forall>ev \<in> snd ` set (ep_items ep). ev_events ev AND EPOLLET \<noteq> 0"
    by (rule edge_triggered_onlyD)
  define me where "me = (mn_ents mn ! i)\<lparr>me_enabled := True, me_active := False\<rparr>"
  define mn1 where "mn1 = put_entry mn i me"
  define out where "out = op_get_fd (ops (me_opers me)) w mn1 me"
  define mn2 where "mn2 = put_entry mn1 i (drv_entry me out)"
  define ev where "ev = \<lparr>ev_events = me_events me, ev_ptr = Some i\<rparr>"
  obtain r w2 where ctl: "epoll_ctl (out_os out) (mn_fd mn) EPOLL_CTL_ADD (out_rc out) (Some ev) = (r, w2)"
    by (cases "epoll_ctl (out_os out) (mn_fd mn) EPOLL_CTL_ADD (out_rc out) (Some ev)") auto
  from keep ep have ep1: "fd_lookup (out_os out) (mn_fd mn) = Some (EventPoll ep)"
    unfolding get_fd_keeps_epoll_def out_def by blast
  have inst1: "edge_triggered_only (out_os out) (mn_fd mn)"
    using ep1 edge by (rule edge_triggered_onlyI)
  have evet: "ev_events ev AND EPOLLET \<noteq> 0" using et by (simp add: ev_def me_def)
  from epoll_ctl_add_edge [OF ep1 edge evet ctl] obtain ep2 where
    ep2: "fd_lookup w2 (mn_fd mn) = Some (EventPoll ep2)"
    and edge2: "\<forall>e \<in> snd ` set (ep_items ep2). ev_events e AND EPOLLET \<noteq> 0" by blast
  have inst2: "edge_triggered_only w2 (mn_fd mn)" using ep2 edge2 by (rule edge_triggered_onlyI)
  from drain_events_terminates [OF ep2 edge_only_all [OF edge2]]
  obtain w3 where dr: "drain_events w2 (mn_fd mn) = Some w3" by blast
  from drain_events_items [OF dr ep2] obtain ep3 where
    ep3: "fd_lookup w3 (mn_fd mn) = Some (EventPoll ep3)" "ep_items ep3 = ep_items ep2" by blast
  with edge2 have inst3: "edge_triggered_only w3 (mn_fd mn)"
    by (simp add: edge_triggered_only_def)
  have bits: "me_events (drv_entry me out) AND (EPOLLIN OR EPOLLET) \<noteq> 0"
  proof
    assume z: "me_events (drv_entry me out) AND (EPOLLIN OR EPOLLET) = 0"
    have "me_events me AND EPOLLET = (me_events me AND (EPOLLIN OR EPOLLET)) AND EPOLLET"
      by (rule and_or_absorb [symmetric])
    with z have "me_events me AND EPOLLET = 0" by (simp add: drv_entry_simps)
    with et show False by (simp add: me_def)
  qed
  have ents: "\<not> length (mn_ents mn) \<le> i" using i by simp
  have body: "monitor_modify_epoll ops w mn i True =
      (if mn_fd mn < 0 then Some (0, w, mn1)
       else if out_rc out < 0 then Some (- int (os_errno (out_os out)), out_os out, mn2)
       else if r < 0 \<and> os_errno w2 \<noteq> EEXIST then Some (- int (os_errno w2), w2, mn2)
       else Some (0, w3, mn2))"
    using ents ctl dr bits
    unfolding monitor_modify_epoll_def mn2_def mn1_def out_def me_def ev_def
    by (simp add: Let_def put_entry_simps split del: if_split cong: if_cong)
  from inst have "0 \<le> mn_fd mn \<or> mn_fd mn < 0" by arith
  show ?thesis
    unfolding body using inst inst1 inst2 inst3 by auto
qed

lemma get_fd_entries_returns:
  assumes keep: "get_fd_keeps_epoll ops"
    and "\<forall>i \<in> set idxs. i < length (mn_ents mn)"
    and "edge_triggered_only w (mn_fd mn)"
    and "\<forall>me \<in> set (mn_ents mn). me_enabled me \<longrightarrow> me_events me AND EPOLLET \<noteq> 0"
  shows "get_fd_entries ops idxs w mn \<noteq> None"
  using assms(2-)
proof (induction idxs arbitrary: w mn)
  case Nil
  then show ?case by simp
next
  case (Cons i rest)
  from Cons.prems(1) have len: "i < length (mn_ents mn)" and rest: "\<forall>k \<in> set rest. k < length (mn_ents mn)"
    by simp_all
  show ?case
  proof (cases "me_enabled (mn_ents mn ! i)")
    case False
    with Cons.IH [OF rest Cons.prems(2,3)] len show ?thesis by simp
  next
    case True
    from len have "mn_ents mn ! i \<in> set (mn_ents mn)" by simp
    with Cons.prems(3) True have et: "me_events (mn_ents mn ! i) AND EPOLLET \<noteq> 0" by blast
    from modify_epoll_enable_edge [OF keep len Cons.prems(2) et] obtain r w1 mn1 where
      step: "monitor_modify_epoll ops w mn i True = Some (r, w1, mn1)"
      and inst1: "edge_triggered_only w1 (mn_fd mn)" by blast
    from modify_epoll_shape [OF step] obtain fd' data' where
      sh: "mn1 = put_entry mn i ((mn_ents mn ! i)\<lparr>me_enabled := True, me_active := False,
             me_fd := fd', me_data := data'\<rparr>)"
      by blast
    have fd1: "mn_fd mn1 = mn_fd mn" and len1: "length (mn_ents mn1) = length (mn_ents mn)"
      by (simp_all add: sh put_entry_simps)
    have inv: "\<forall>me \<in> set (mn_ents mn1). me_enabled me \<longrightarrow> me_events me AND EPOLLET \<noteq> 0"
    proof
      fix me assume "me \<in> set (mn_ents mn1)"
      then have "me \<in> set (mn_ents mn) \<or>
          me = (mn_ents mn ! i)\<lparr>me_enabled := True, me_active := False, me_fd := fd', me_data := data'\<rparr>"
        unfolding sh put_entry_simps by (auto dest: set_update_subset_insert [THEN subsetD])
      with Cons.prems(3) et show "me_enabled me \<longrightarrow> me_events me AND EPOLLET \<noteq> 0"
        by auto
    qed
    from Cons.IH [of mn1 w1] rest len1 inst1 fd1 inv
    have "get_fd_entries ops rest w1 mn1 \<noteq> None" by simp
    with step len True show ?thesis by (cases "r = 0") simp_all
  qed
qed

text \<open>
  \<^verbatim>\<open>mnt_monitor_get_fd\<close> returns when the enabled entries are edge-triggered and the
  drivers leave epoll instances alone.
\<close>

lemma get_fd_returns:
  assumes keep: "get_fd_keeps_epoll ops"
    and bits: "\<forall>me \<in> set (mn_ents mn). me_enabled me \<longrightarrow> me_events me AND EPOLLET \<noteq> 0"
  shows "\<exists>rc w' mn'. mnt_monitor_get_fd ops w (Some mn) = Some (rc, w', Some mn')"
proof (cases "0 \<le> mn_fd mn")
  case True
  then show ?thesis by (simp add: mnt_monitor_get_fd_def)
next
  case False
  obtain fd w1 where cr: "epoll_create1 w = (fd, w1)" by (cases "epoll_create1 w") auto
  show ?thesis
  proof (cases "fd < 0")
    case True
    with False cr show ?thesis by (simp add: mnt_monitor_get_fd_def)
  next
    case fdpos: False
    then have "edge_triggered_only w1 fd" using epoll_create1_edge [OF cr] by simp
    from get_fd_entries_returns [OF keep, of "[0..<length (mn_ents mn)]" "mn\<lparr>mn_fd := fd\<rparr>" w1]
      this bits
    obtain r w2 mn2 where
      "get_fd_entries ops [0..<length (mn_ents mn)] w1 (mn\<lparr>mn_fd := fd\<rparr>) = Some (r, w2, mn2)"
      by (cases "get_fd_entries ops [0..<length (mn_ents mn)] w1 (mn\<lparr>mn_fd := fd\<rparr>)") auto
    with False cr fdpos show ?thesis
      by (simp add: mnt_monitor_get_fd_def Let_def)
  qed
qed


text \<open>
  The enabling call does not return when, after the registration, a level-triggered
  registration on the ready list has a wanted condition pending.
\<close>

lemma modify_epoll_enable_spins:
  assumes fd: "0 \<le> mn_fd mn" and i: "i < length (mn_ents mn)"
    and me: "me = (mn_ents mn ! i)\<lparr>me_enabled := True, me_active := False\<rparr>"
    and out: "out = op_get_fd (ops (me_opers me)) w (put_entry mn i me) me"
    and ok: "0 \<le> out_rc out"
    and ctl: "epoll_ctl (out_os out) (mn_fd mn) EPOLL_CTL_ADD (out_rc out)
                (Some \<lparr>ev_events = me_events me, ev_ptr = Some i\<rparr>) = (r, w2)"
    and added: "\<not> (r < 0 \<and> os_errno w2 \<noteq> EEXIST)"
    and bits: "me_events me AND (EPOLLIN OR EPOLLET) \<noteq> 0"
    and pending: "level_pending w2 (mn_fd mn)"
  shows "monitor_modify_epoll ops w mn i True = None"
proof -
  from drain_events_spins [OF pending] have dr: "drain_events w2 (mn_fd mn) = None" .
  have ents: "\<not> length (mn_ents mn) \<le> i" and fd0: "\<not> mn_fd mn < 0" and ok0: "\<not> out_rc out < 0"
    using i fd ok by simp_all
  have bits': "me_events (drv_entry me out) AND (EPOLLIN OR EPOLLET) \<noteq> 0"
    using bits by (simp add: drv_entry_simps)
  define mn2 where "mn2 = put_entry (put_entry mn i me) i (drv_entry me out)"
  have body: "monitor_modify_epoll ops w mn i True =
      (if r < 0 \<and> os_errno w2 \<noteq> EEXIST then Some (- int (os_errno w2), w2, mn2)
       else (case drain_events w2 (mn_fd mn) of None \<Rightarrow> None | Some w3 \<Rightarrow> Some (0, w3, mn2)))"
    using ents fd0 ok0 bits' ctl
    unfolding monitor_modify_epoll_def mn2_def out me
    by (simp add: Let_def put_entry_simps split del: if_split cong: if_cong)
  from added dr show ?thesis unfolding body by simp
qed

text \<open>
  Wherever the enabling call returns 0, the ready list of the epoll instance has been
  drained: for drivers that leave an error number when \<^verbatim>\<open>op_get_fd\<close> fails,
  \<^verbatim>\<open>mnt_monitor_wait\<close> with timeout 0 right after it returns 0 and changes nothing, and
  the first \<^verbatim>\<open>mnt_monitor_wait\<close> that builds the epoll descriptor does not return 1.
  The enabling call returns when the entry and the registrations already in the epoll
  instance are edge-triggered.
\<close>

lemma enable_then_wait_reports_nothing:
  assumes "get_fd_failure_sets_errno ops"
  shows "(0 \<le> mn_fd mn \<and> me_events (mn_ents mn ! i) AND (EPOLLIN OR EPOLLET) \<noteq> 0 \<and>
          monitor_modify_epoll ops w mn i True = Some (0, w', mn') \<longrightarrow>
            mnt_monitor_wait ops w' (Some mn') 0 = Some (0, w', Some mn')) \<and>
         (mn_fd mn < 0 \<and>
          (\<forall>me \<in> set (mn_ents mn). me_enabled me \<longrightarrow> me_events me AND (EPOLLIN OR EPOLLET) \<noteq> 0) \<and>
          mnt_monitor_wait ops w (Some mn) 0 = Some (rc, w'', mno'') \<longrightarrow> rc = 0 \<or> rc < 0) \<and>
         (get_fd_keeps_epoll ops \<and> i < length (mn_ents mn) \<and>
          fd_lookup w (mn_fd mn) = Some (EventPoll ep) \<and>
          (\<forall>e \<in> snd ` set (ep_items ep). ev_events e AND EPOLLET \<noteq> 0) \<and>
          me_events (mn_ents mn ! i) AND EPOLLET \<noteq> 0 \<longrightarrow>
            (\<exists>y. monitor_modify_epoll ops w mn i True = Some y))"
proof (intro conjI impI)
  assume a: "0 \<le> mn_fd mn \<and> me_events (mn_ents mn ! i) AND (EPOLLIN OR EPOLLET) \<noteq> 0 \<and>
          monitor_modify_epoll ops w mn i True = Some (0, w', mn')"
  then have fd: "0 \<le> mn_fd mn" and bits: "me_events (mn_ents mn ! i) AND (EPOLLIN OR EPOLLET) \<noteq> 0"
    and run: "monitor_modify_epoll ops w mn i True = Some (0, w', mn')"
    by simp_all
  from modify_epoll_enable_quiet [OF assms fd bits run] have q: "quiet w' (mn_fd mn)" .
  from modify_epoll_frame(1) [OF run] have "mn_fd mn' = mn_fd mn" .
  with q fd show "mnt_monitor_wait ops w' (Some mn') 0 = Some (0, w', Some mn')"
    by (intro wait_on_quiet) simp_all
next
  assume b: "mn_fd mn < 0 \<and>
          (\<forall>me \<in> set (mn_ents mn). me_enabled me \<longrightarrow> me_events me AND (EPOLLIN OR EPOLLET) \<noteq> 0) \<and>
          mnt_monitor_wait ops w (Some mn) 0 = Some (rc, w'', mno'')"
  then have nofd: "mn_fd mn < 0"
    and bits: "\<forall>me \<in> set (mn_ents mn). me_enabled me \<longrightarrow> me_events me AND (EPOLLIN OR EPOLLET) \<noteq> 0"
    and run: "mnt_monitor_wait ops w (Some mn) 0 = Some (rc, w'', mno'')"
    by simp_all
  from run nofd obtain rc1 wa mnoa where
    g: "mnt_monitor_get_fd ops w (Some mn) = Some (rc1, wa, mnoa)"
    by (auto simp: mnt_monitor_wait_def split: option.splits)
  from get_fd_outcome [OF nofd g] obtain mna where mna: "mnoa = Some mna" by blast
  show "rc = 0 \<or> rc < 0"
  proof (cases "rc1 < 0")
    case True
    with run nofd g mna show ?thesis by (auto simp: mnt_monitor_wait_def)
  next
    case False
    then have "0 \<le> rc1" by simp
    from get_fd_success_quiet [OF assms nofd bits g [unfolded mna] this]
    have "0 \<le> mn_fd mna" "quiet wa (mn_fd mna)" by simp_all
    from read_epoll_events_nothing [OF epoll_wait_quiet [OF this(2)], of ops]
    have "read_epoll_events ops wa mna 0 = Some (1, None, wa, mna)" .
    with run nofd g mna False show ?thesis by (auto simp: mnt_monitor_wait_def)
  qed
next
  assume c: "get_fd_keeps_epoll ops \<and> i < length (mn_ents mn) \<and>
          fd_lookup w (mn_fd mn) = Some (EventPoll ep) \<and>
          (\<forall>e \<in> snd ` set (ep_items ep). ev_events e AND EPOLLET \<noteq> 0) \<and>
          me_events (mn_ents mn ! i) AND EPOLLET \<noteq> 0"
  then have keep: "get_fd_keeps_epoll ops" and i: "i < length (mn_ents mn)"
    and inst: "fd_lookup w (mn_fd mn) = Some (EventPoll ep)"
    and edge: "\<forall>e \<in> snd ` set (ep_items ep). ev_events e AND EPOLLET \<noteq> 0"
    and et: "me_events (mn_ents mn ! i) AND EPOLLET \<noteq> 0"
    by simp_all
  from modify_epoll_enable_returns [OF keep i inst edge et]
  show "\<exists>y. monitor_modify_epoll ops w mn i True = Some y" .
qed

text \<open>
  The first \<^verbatim>\<open>mnt_monitor_wait\<close> with timeout 0 returns, with 0 or an error, when the
  enabled entries are edge-triggered.
\<close>

lemma first_wait_returns:
  assumes c1: "get_fd_failure_sets_errno ops" and keep: "get_fd_keeps_epoll ops"
    and nofd: "mn_fd mn < 0"
    and et: "\<forall>me \<in> set (mn_ents mn). me_enabled me \<longrightarrow> me_events me AND EPOLLET \<noteq> 0"
  shows "\<exists>rc w' mn'. mnt_monitor_wait ops w (Some mn) 0 = Some (rc, w', Some mn') \<and> rc \<le> 0"
proof -
  from get_fd_returns [OF keep et] obtain rc1 wa mna where
    g: "mnt_monitor_get_fd ops w (Some mn) = Some (rc1, wa, Some mna)" by blast
  show ?thesis
  proof (cases "rc1 < 0")
    case True
    with nofd g have "mnt_monitor_wait ops w (Some mn) 0 = Some (rc1, wa, Some mna)"
      by (simp add: mnt_monitor_wait_def)
    with True show ?thesis by simp
  next
    case False
    then have ok: "0 \<le> rc1" by simp
    have bits: "\<forall>me \<in> set (mn_ents mn). me_enabled me \<longrightarrow> me_events me AND (EPOLLIN OR EPOLLET) \<noteq> 0"
    proof (intro ballI impI)
      fix me assume "me \<in> set (mn_ents mn)" and "me_enabled me"
      with et have nz: "me_events me AND EPOLLET \<noteq> 0" by blast
      show "me_events me AND (EPOLLIN OR EPOLLET) \<noteq> 0"
      proof
        assume "me_events me AND (EPOLLIN OR EPOLLET) = 0"
        then have "(me_events me AND (EPOLLIN OR EPOLLET)) AND EPOLLET = 0" by simp
        with nz show False by (simp only: and_or_absorb)
      qed
    qed
    from get_fd_success_quiet [OF c1 nofd bits g ok]
    have q: "0 \<le> mn_fd mna" "quiet wa (mn_fd mna)" by simp_all
    from read_epoll_events_nothing [OF epoll_wait_quiet [OF q(2)], of ops]
    have "read_epoll_events ops wa mna 0 = Some (1, None, wa, mna)" .
    with nofd g False have "mnt_monitor_wait ops w (Some mn) 0 = Some (0, wa, Some mna)"
      by (simp add: mnt_monitor_wait_def)
    then show ?thesis by simp
  qed
qed

section \<open>The claims\<close>

subsection \<open>C1: the results of the structured-detail operation\<close>

text \<open>
  C1, as stated, does not hold: with no entry reported yet, \<^verbatim>\<open>mnt_monitor_event_next_fs\<close>
  returns 1, the "no more data" result of its interface, not an error. On a fresh
  monitor:
\<close>

theorem event_next_fs_fresh_is_no_more_data:
  "mnt_monitor_event_next_fs sample_opers sample_os (Some mnt_new_monitor) (Some 0) =
     Some (1, Some 0, sample_os, Some mnt_new_monitor)"
  by (simp add: mnt_monitor_event_next_fs_def mnt_new_monitor_def)

text \<open>
  C1 (amended): with a monitor and a record given, \<^verbatim>\<open>mnt_monitor_event_next_fs\<close> returns 1
  ("no more data") and changes nothing when no entry has been reported, and it returns
  \<^verbatim>\<open>-ENOTSUP\<close> (-95) and changes nothing when the driver of the last reported entry has
  no detail operation. The two results are different, and the second is negative.
\<close>

theorem event_next_fs_no_event_or_unsupported:
  "(mn_last mn = None \<longrightarrow>
      mnt_monitor_event_next_fs ops w (Some mn) (Some fs) = Some (1, Some fs, w, Some mn)) \<and>
   (mn_last mn = Some i \<and> i < length (mn_ents mn) \<and>
      op_next_fs (ops (me_opers (mn_ents mn ! i))) = None \<longrightarrow>
      mnt_monitor_event_next_fs ops w (Some mn) (Some fs) = Some (- 95, Some fs, w, Some mn))"
  by (simp add: mnt_monitor_event_next_fs_def)

theorem event_next_fs_no_event_or_unsupported_witness:
  "mnt_monitor_event_next_fs sample_opers sample_os (Some mnt_new_monitor) (Some 7) =
     Some (1, Some 7, sample_os, Some mnt_new_monitor) \<and>
   mnt_monitor_event_next_fs sample_opers sample_os
       (Some (mnt_new_monitor\<lparr>mn_fd := 3, mn_ents := [polled_entry], mn_last := Some 0\<rparr>)) (Some 7) =
     Some (- 95, Some 7, sample_os,
       Some (mnt_new_monitor\<lparr>mn_fd := 3, mn_ents := [polled_entry], mn_last := Some 0\<rparr>))"
proof -
  have a: "mn_last mnt_new_monitor = None"
    by (simp add: mnt_new_monitor_def)
  have b: "mn_last (mnt_new_monitor\<lparr>mn_fd := 3, mn_ents := [polled_entry], mn_last := Some 0\<rparr>) = Some 0 \<and>
      0 < length (mn_ents (mnt_new_monitor\<lparr>mn_fd := 3, mn_ents := [polled_entry], mn_last := Some 0\<rparr>)) \<and>
      op_next_fs (sample_opers (me_opers
        (mn_ents (mnt_new_monitor\<lparr>mn_fd := 3, mn_ents := [polled_entry], mn_last := Some 0\<rparr>) ! 0))) = None"
    by (simp add: polled_entry_def sample_opers_def polled_opers_def)
  from a b
    event_next_fs_no_event_or_unsupported
      [where mn = mnt_new_monitor and ops = sample_opers and w = sample_os and fs = 7 and i = 0]
    event_next_fs_no_event_or_unsupported
      [where mn = "mnt_new_monitor\<lparr>mn_fd := 3, mn_ents := [polled_entry], mn_last := Some 0\<rparr>"
         and ops = sample_opers and w = sample_os and fs = 7 and i = 0]
  show ?thesis by blast
qed

subsection \<open>C8: the registration procedure without an epoll descriptor\<close>

text \<open>
  C8, as stated, does not hold: without an epoll descriptor \<^verbatim>\<open>monitor_modify_epoll\<close>
  still writes the entry's flags before it returns, so the state of the monitor
  changes. Enabling the disabled entry of a monitor that has no descriptor:
\<close>

theorem modify_epoll_without_descriptor_sets_flag:
  "monitor_modify_epoll sample_opers sample_os (mnt_new_monitor\<lparr>mn_ents := [polled_entry]\<rparr>) 0 True =
     Some (0, sample_os, mnt_new_monitor\<lparr>mn_ents := [polled_entry\<lparr>me_enabled := True\<rparr>]\<rparr>) \<and>
   mnt_new_monitor\<lparr>mn_ents := [polled_entry\<lparr>me_enabled := True\<rparr>]\<rparr> \<noteq>
     mnt_new_monitor\<lparr>mn_ents := [polled_entry]\<rparr>"
  by (simp add: monitor_modify_epoll_def mnt_new_monitor_def polled_entry_def put_entry_def)

text \<open>
  C8 (amended): for every entry and both directions, \<^verbatim>\<open>monitor_modify_epoll\<close> on a
  monitor without an epoll descriptor returns 0, calls neither the operating system nor
  the driver (the state of the operating system is unchanged), and changes nothing in
  the monitor but the two flags of that entry: \<^verbatim>\<open>enabled\<close> becomes the requested
  value and \<^verbatim>\<open>active\<close> is cleared.
\<close>

theorem modify_epoll_without_descriptor:
  assumes "mn_fd mn < 0" and "i < length (mn_ents mn)"
  shows "monitor_modify_epoll ops w mn i enable =
           Some (0, w, mn\<lparr>mn_ents := (mn_ents mn)
                    [i := (mn_ents mn ! i)\<lparr>me_enabled := enable, me_active := False\<rparr>]\<rparr>)"
  using assms by (simp add: monitor_modify_epoll_def put_entry_def Let_def)

theorem modify_epoll_without_descriptor_witness:
  "monitor_modify_epoll sample_opers sample_os
       (mnt_new_monitor\<lparr>mn_ents := [polled_entry\<lparr>me_enabled := True, me_active := True\<rparr>]\<rparr>) 0 False =
     Some (0, sample_os, mnt_new_monitor\<lparr>mn_ents := [polled_entry]\<rparr>)"
proof -
  have a: "mn_fd (mnt_new_monitor\<lparr>mn_ents := [polled_entry\<lparr>me_enabled := True, me_active := True\<rparr>]\<rparr>) < 0"
    by (simp add: mnt_new_monitor_def)
  have b: "0 < length (mn_ents (mnt_new_monitor\<lparr>mn_ents := [polled_entry\<lparr>me_enabled := True, me_active := True\<rparr>]\<rparr>))"
    by simp
  show ?thesis
    using modify_epoll_without_descriptor [OF a b, of sample_opers sample_os False]
    by (simp add: polled_entry_def)
qed

subsection \<open>C10: the back-reference after a call of next-change that reports nothing\<close>

text \<open>
  C10, as stated, does not hold: \<^verbatim>\<open>mnt_monitor_next_change\<close> tests its argument and
  the epoll descriptor before it clears \<^verbatim>\<open>mn->last\<close>, and \<^verbatim>\<open>mnt_monitor_close_fd\<close>
  leaves \<^verbatim>\<open>mn->last\<close> alone. After an event has been reported and the descriptor has
  been closed, \<^verbatim>\<open>mnt_monitor_next_change\<close> fails with \<^verbatim>\<open>-EINVAL\<close> and a following
  \<^verbatim>\<open>mnt_monitor_event_next_fs\<close> still yields a detail record of the earlier event (it
  returns 0).
\<close>

theorem next_change_without_descriptor_keeps_last:
  "(case mnt_monitor_close_fd sample_opers reported_os (Some reported_monitor) of
      None \<Rightarrow> False
    | Some (rc0, w1, mno1) \<Rightarrow>
        (case mnt_monitor_next_change sample_opers w1 mno1 of
           None \<Rightarrow> False
         | Some (rc1, rep, w2, mno2) \<Rightarrow>
             rc1 = - 22 \<and>
             (case mnt_monitor_event_next_fs sample_opers w2 mno2 (Some 0) of
                None \<Rightarrow> False
              | Some (rc2, fs, w3, mno3) \<Rightarrow> rc2 = 0 \<and> fs = Some 101)))"
  by (simp add: mnt_monitor_close_fd_def reported_monitor_def reported_os_def rich_entry_def
      monitor_modify_epoll_def put_entry_def drv_entry_def epoll_ctl_def fd_lookup_def fd_store_def
      sample_opers_def rich_opers_def polled_close_fd_def close_def ep_forget_def sys_fail_def
      mnt_monitor_next_change_def mnt_monitor_event_next_fs_def rich_next_fs_def Let_def)

text \<open>
  C10 (amended): on a monitor whose epoll descriptor exists, \<^verbatim>\<open>mnt_monitor_next_change\<close>
  clears the back-reference before it looks for a change, so whenever it returns
  anything but success, the back-reference is unset and a following
  \<^verbatim>\<open>mnt_monitor_event_next_fs\<close> returns 1 ("no more data") without calling a driver.
\<close>

theorem next_change_failure_clears_last:
  assumes "0 \<le> mn_fd mn"
    and "mnt_monitor_next_change ops w (Some mn) = Some (rc, rep, w', mno')"
    and "rc \<noteq> 0"
  shows "\<exists>mn'. mno' = Some mn' \<and> mn_last mn' = None \<and>
           (\<forall>fs. mnt_monitor_event_next_fs ops w' mno' (Some fs) = Some (1, Some fs, w', mno'))"
proof (cases "get_active (mn\<lparr>mn_last := None\<rparr>)")
  case (Some i)
  with assms show ?thesis
    by (auto simp: mnt_monitor_next_change_def next_change_report_def Let_def split: if_splits)
next
  case None
  show ?thesis
  proof (cases "read_epoll_events ops w (mn\<lparr>mn_last := None\<rparr>) 0")
    case none: None
    with assms None show ?thesis
      by (simp add: mnt_monitor_next_change_def Let_def)
  next
    case some: (Some res)
    obtain rc1 act w1 mn2 where res: "res = (rc1, act, w1, mn2)"
      by (cases res) auto
    from read_epoll_events_frame [OF some [unfolded res]]
    have last: "mn_last mn2 = None" by simp
    from assms None some res have "mno' = Some mn2" "w' = w1"
      by (auto simp: mnt_monitor_next_change_def next_change_report_def Let_def
          split: if_splits option.splits)
    with last show ?thesis
      by (simp add: mnt_monitor_event_next_fs_def)
  qed
qed

lemma reported_next_change:
  "mnt_monitor_next_change sample_opers reported_os (Some reported_monitor) =
     Some (1, None, reported_os, Some (reported_monitor\<lparr>mn_last := None\<rparr>))"
  apply (simp add: mnt_monitor_next_change_def reported_monitor_def get_active_def rich_entry_def)
  apply (subst read_epoll_events.simps)
  apply (simp add: epoll_wait_def reported_os_def fd_lookup_def fd_store_def)
  done

theorem next_change_failure_clears_last_witness:
  "mnt_monitor_next_change sample_opers reported_os (Some reported_monitor) =
     Some (1, None, reported_os, Some (reported_monitor\<lparr>mn_last := None\<rparr>)) \<and>
   mnt_monitor_event_next_fs sample_opers reported_os
       (Some (reported_monitor\<lparr>mn_last := None\<rparr>)) (Some 5) =
     Some (1, Some 5, reported_os, Some (reported_monitor\<lparr>mn_last := None\<rparr>))"
proof -
  have fd: "0 \<le> mn_fd reported_monitor"
    by (simp add: reported_monitor_def)
  have neq: "(1::int) \<noteq> 0" by simp
  from next_change_failure_clears_last [OF fd reported_next_change neq] reported_next_change
  show ?thesis by auto
qed

subsection \<open>C7: removal failures while disabling an entry\<close>

text \<open>
  C7: when an entry is disabled while the epoll descriptor exists and the removal of
  its descriptor from the epoll instance is attempted (the entry's descriptor field is
  not 0) and fails, then the failure "not registered" (\<^verbatim>\<open>ENOENT\<close>) is swallowed and
  \<^verbatim>\<open>monitor_modify_epoll\<close> returns 0, and every other failure is returned as the
  negative error number. In both cases the flags of the entry are cleared.
\<close>

theorem modify_epoll_disable_removal_failure:
  assumes "i < length (mn_ents mn)" and "0 \<le> mn_fd mn" and "me_fd (mn_ents mn ! i) \<noteq> 0"
    and "epoll_ctl w (mn_fd mn) EPOLL_CTL_DEL (me_fd (mn_ents mn ! i)) None = (r, w1)"
    and "r < 0"
  shows "monitor_modify_epoll ops w mn i False =
           Some ((if os_errno w1 = ENOENT then 0 else - int (os_errno w1)), w1,
                 mn\<lparr>mn_ents := (mn_ents mn)
                    [i := (mn_ents mn ! i)\<lparr>me_enabled := False, me_active := False\<rparr>]\<rparr>) \<and>
         (os_errno w1 \<noteq> ENOENT \<longrightarrow> - int (os_errno w1) < 0)"
proof -
  from epoll_ctl_failure_errno [OF assms(4) assms(5)] have pos: "0 < os_errno w1" .
  from assms show ?thesis
    using pos by (simp add: monitor_modify_epoll_def put_entry_def Let_def)
qed

lemma unregistered_del:
  "epoll_ctl reported_os 3 EPOLL_CTL_DEL 2 None = (- 1, reported_os\<lparr>os_errno := ENOENT\<rparr>)"
  by (simp add: epoll_ctl_def reported_os_def fd_lookup_def sys_fail_def)

lemma unset_del:
  "epoll_ctl reported_os 3 EPOLL_CTL_DEL (- 1) None = (- 1, reported_os\<lparr>os_errno := EBADF\<rparr>)"
  by (simp add: epoll_ctl_def reported_os_def fd_lookup_def sys_fail_def)

theorem modify_epoll_disable_removal_failure_witness:
  "monitor_modify_epoll sample_opers reported_os
       (reported_monitor\<lparr>mn_ents := [polled_entry\<lparr>me_fd := 2, me_enabled := True\<rparr>]\<rparr>) 0 False =
     Some (0, reported_os\<lparr>os_errno := ENOENT\<rparr>,
           reported_monitor\<lparr>mn_ents := [polled_entry\<lparr>me_fd := 2\<rparr>]\<rparr>) \<and>
   monitor_modify_epoll sample_opers reported_os
       (reported_monitor\<lparr>mn_ents := [polled_entry\<lparr>me_enabled := True\<rparr>]\<rparr>) 0 False =
     Some (- 9, reported_os\<lparr>os_errno := EBADF\<rparr>,
           reported_monitor\<lparr>mn_ents := [polled_entry]\<rparr>)"
proof -
  have a: "monitor_modify_epoll sample_opers reported_os
       (reported_monitor\<lparr>mn_ents := [polled_entry\<lparr>me_fd := 2, me_enabled := True\<rparr>]\<rparr>) 0 False =
     Some (0, reported_os\<lparr>os_errno := ENOENT\<rparr>,
           reported_monitor\<lparr>mn_ents := [polled_entry\<lparr>me_fd := 2\<rparr>]\<rparr>)"
    using modify_epoll_disable_removal_failure
      [where mn = "reported_monitor\<lparr>mn_ents := [polled_entry\<lparr>me_fd := 2, me_enabled := True\<rparr>]\<rparr>"
         and i = 0 and w = reported_os and r = "- 1" and ops = sample_opers
         and ?w1.0 = "reported_os\<lparr>os_errno := ENOENT\<rparr>"]
      unregistered_del
    by (simp add: reported_monitor_def polled_entry_def)
  have b: "monitor_modify_epoll sample_opers reported_os
       (reported_monitor\<lparr>mn_ents := [polled_entry\<lparr>me_enabled := True\<rparr>]\<rparr>) 0 False =
     Some (- 9, reported_os\<lparr>os_errno := EBADF\<rparr>,
           reported_monitor\<lparr>mn_ents := [polled_entry]\<rparr>)"
    using modify_epoll_disable_removal_failure
      [where mn = "reported_monitor\<lparr>mn_ents := [polled_entry\<lparr>me_enabled := True\<rparr>]\<rparr>"
         and i = 0 and w = reported_os and r = "- 1" and ops = sample_opers
         and ?w1.0 = "reported_os\<lparr>os_errno := EBADF\<rparr>"]
      unset_del
    by (simp add: reported_monitor_def polled_entry_def)
  from a b show ?thesis by simp
qed

subsection \<open>C3: the descriptor of the monitor\<close>



lemma get_fd_run_success:
  "mnt_monitor_get_fd sample_opers sample_os (Some enabled_monitor) =
     Some (3,
       \<lparr>os_errno = 0,
        os_fds = [(0, Plain 0), (1, Plain 0), (2, Plain 0),
                  (3, EventPoll \<lparr>ep_items = [(4, \<lparr>ev_events = EPOLLIN OR EPOLLET, ev_ptr = Some 0\<rparr>)],
                                 ep_rdllist = []\<rparr>),
                  (4, Plain EPOLLIN)],
        os_nofile = 16, os_max_user_watches = 8, os_sigpending = False\<rparr>,
       Some (enabled_monitor\<lparr>mn_fd := 3, mn_ents := [polled_entry\<lparr>me_enabled := True, me_fd := 4\<rparr>]\<rparr>))"
  by code_simp





subsection \<open>C9: closing the descriptor of the monitor\<close>




subsection \<open>C5: next-change consumes the event it reports\<close>

text \<open>
  C5: on a monitor with an epoll descriptor where exactly one entry is active (one
  accepted event waits to be reported) and the operating system has nothing more to
  deliver, \<^verbatim>\<open>mnt_monitor_next_change\<close> returns 0 with the path and the type of that
  entry, clears its \<^verbatim>\<open>active\<close> flag and records it as the last reported one, without
  calling the operating system; a second call returns 1 ("no change") and reports
  nothing. A call reports at most one entry: its result holds one path and one type.
\<close>

theorem next_change_consumes:
  assumes "0 \<le> mn_fd mn" and "i < length (mn_ents mn)" and "me_active (mn_ents mn ! i)"
    and "\<forall>j < length (mn_ents mn). j \<noteq> i \<longrightarrow> \<not> me_active (mn_ents mn ! j)"
    and "epoll_wait w (mn_fd mn) 0 = Some (0, p, w1)"
  shows "mnt_monitor_next_change ops w (Some mn) =
           Some (0, Some (me_path (mn_ents mn ! i), me_type (mn_ents mn ! i)), w,
             Some (mn\<lparr>mn_ents := (mn_ents mn)[i := (mn_ents mn ! i)\<lparr>me_active := False\<rparr>],
                      mn_last := Some i\<rparr>)) \<and>
         mnt_monitor_next_change ops w
             (Some (mn\<lparr>mn_ents := (mn_ents mn)[i := (mn_ents mn ! i)\<lparr>me_active := False\<rparr>],
                      mn_last := Some i\<rparr>)) =
           Some (1, None, w1,
             Some (mn\<lparr>mn_ents := (mn_ents mn)[i := (mn_ents mn ! i)\<lparr>me_active := False\<rparr>],
                      mn_last := None\<rparr>))"
proof -
  let ?ents' = "(mn_ents mn)[i := (mn_ents mn ! i)\<lparr>me_active := False\<rparr>]"
  from assms(2-4) have "get_active_from (mn_ents mn) 0 = Some (0 + i)"
    by (intro get_active_from_first) auto
  then have first: "get_active (mn\<lparr>mn_last := None\<rparr>) = Some i"
    by (simp add: get_active_def)
  have "\<forall>me \<in> set ?ents'. \<not> me_active me"
  proof
    fix me assume "me \<in> set ?ents'"
    then obtain j where j: "j < length (mn_ents mn)" "me = ?ents' ! j"
      by (auto simp: in_set_conv_nth)
    with assms(4) show "\<not> me_active me"
      by (cases "j = i") auto
  qed
  then have "get_active_from ?ents' 0 = None" by (rule get_active_from_none)
  then have second: "get_active (mn\<lparr>mn_ents := ?ents', mn_last := None\<rparr>) = None"
    by (simp add: get_active_def)
  from assms(5) have "read_epoll_events ops w (mn\<lparr>mn_ents := ?ents', mn_last := None\<rparr>) 0 =
      Some (1, None, w1, mn\<lparr>mn_ents := ?ents', mn_last := None\<rparr>)"
    by (intro read_epoll_events_nothing) simp
  with first second assms(1,2) show ?thesis
    by (simp add: mnt_monitor_next_change_def next_change_report_def put_entry_def Let_def)
qed

lemma reported_os_nothing_pending: "epoll_wait reported_os 3 0 = Some (0, None, reported_os)"
  by code_simp

theorem next_change_consumes_witness:
  "mnt_monitor_next_change sample_opers reported_os (Some active_monitor) =
     Some (0, Some (''/'', 3), reported_os, Some reported_monitor) \<and>
   mnt_monitor_next_change sample_opers reported_os (Some reported_monitor) =
     Some (1, None, reported_os, Some (reported_monitor\<lparr>mn_last := None\<rparr>))"
proof -
  have h: "0 \<le> mn_fd active_monitor" "0 < length (mn_ents active_monitor)"
    "me_active (mn_ents active_monitor ! 0)"
    "\<forall>j < length (mn_ents active_monitor). j \<noteq> 0 \<longrightarrow> \<not> me_active (mn_ents active_monitor ! j)"
    "epoll_wait reported_os (mn_fd active_monitor) 0 = Some (0, None, reported_os)"
    using reported_os_nothing_pending by (simp_all add: active_monitor_def)
  from next_change_consumes [OF h, of sample_opers] show ?thesis
    by (simp add: active_monitor_def reported_monitor_def rich_entry_def)
qed

subsection \<open>C4: the results of waiting\<close>

text \<open>
  C4: \<^verbatim>\<open>mnt_monitor_wait\<close> on \<^verbatim>\<open>NULL\<close> returns \<^verbatim>\<open>-EINVAL\<close>. Whenever it returns on a
  monitor, the result is 1, 0 or negative; a result that is not negative leaves the
  monitor with an epoll descriptor, which is the one \<^verbatim>\<open>epoll_create1\<close> made in this call if
  there was none before; the result 1 leaves an active entry (a change was accepted).
  On a monitor that has its descriptor the result follows \<^verbatim>\<open>epoll_wait\<close>:
  \<^item> nothing before the timeout gives 0, not an error;
  \<^item> a failure gives \<^verbatim>\<open>-errno\<close>, which is negative;
  \<^item> an event that carries no entry gives \<^verbatim>\<open>-EINVAL\<close>;
  \<^item> an event of an entry goes to the driver's \<^verbatim>\<open>op_process_event\<close>: an accepted event
    (0) gives 1 and marks the entry active, an error of the driver (negative) is returned
    as it is, and an ignored event (positive) sends the call back to \<^verbatim>\<open>epoll_wait\<close>.
  On a monitor without descriptor the call runs \<^verbatim>\<open>mnt_monitor_get_fd\<close> first: its
  error is returned, and otherwise the wait goes on with the descriptor just made.
\<close>

theorem wait_results:
  "mnt_monitor_wait ops w None timeout = Some (- 22, w, None) \<and>
   (mnt_monitor_wait ops w (Some mn) timeout = Some (rc, w', mno') \<longrightarrow>
      (rc = 1 \<or> rc = 0 \<or> rc < 0) \<and>
      (\<exists>mn'. mno' = Some mn' \<and>
         (0 \<le> rc \<longrightarrow> 0 \<le> mn_fd mn' \<and> (mn_fd mn < 0 \<longrightarrow> mn_fd mn' = fst (epoll_create1 w))) \<and>
         (rc = 1 \<longrightarrow> (\<exists>i < length (mn_ents mn'). me_active (mn_ents mn' ! i))))) \<and>
   (0 \<le> mn_fd mn \<and> epoll_wait w (mn_fd mn) timeout = Some (0, p, w1) \<longrightarrow>
      mnt_monitor_wait ops w (Some mn) timeout = Some (0, w1, Some mn)) \<and>
   (0 \<le> mn_fd mn \<and> epoll_wait w (mn_fd mn) timeout = Some (r, p, w1) \<and> r < 0 \<longrightarrow>
      mnt_monitor_wait ops w (Some mn) timeout = Some (- int (os_errno w1), w1, Some mn) \<and>
      - int (os_errno w1) < 0) \<and>
   (0 \<le> mn_fd mn \<and> epoll_wait w (mn_fd mn) timeout = Some (r, None, w1) \<and> 0 < r \<longrightarrow>
      mnt_monitor_wait ops w (Some mn) timeout = Some (- 22, w1, Some mn)) \<and>
   (0 \<le> mn_fd mn \<and> epoll_wait w (mn_fd mn) timeout = Some (r, Some i, w1) \<and> 0 < r \<and>
    i < length (mn_ents mn) \<and>
    out = op_process_event (ops (me_opers (mn_ents mn ! i))) w1 mn (mn_ents mn ! i) \<longrightarrow>
      (out_rc out = 0 \<longrightarrow>
         mnt_monitor_wait ops w (Some mn) timeout =
           Some (1, out_os out,
             Some (put_entry mn i ((drv_entry (mn_ents mn ! i) out)\<lparr>me_active := True\<rparr>)))) \<and>
      (out_rc out < 0 \<longrightarrow>
         mnt_monitor_wait ops w (Some mn) timeout =
           Some (out_rc out, out_os out, Some (put_entry mn i (drv_entry (mn_ents mn ! i) out)))) \<and>
      (0 < out_rc out \<longrightarrow>
         mnt_monitor_wait ops w (Some mn) timeout =
           mnt_monitor_wait ops (out_os out)
             (Some (put_entry mn i (drv_entry (mn_ents mn ! i) out))) timeout)) \<and>
   (mn_fd mn < 0 \<and> mnt_monitor_get_fd ops w (Some mn) = Some (rc1, wg, Some mng) \<longrightarrow>
      (rc1 < 0 \<longrightarrow> mnt_monitor_wait ops w (Some mn) timeout = Some (rc1, wg, Some mng)) \<and>
      (0 \<le> rc1 \<longrightarrow> mn_fd mng = fst (epoll_create1 w) \<and> 0 \<le> mn_fd mng \<and>
         mnt_monitor_wait ops w (Some mn) timeout = mnt_monitor_wait ops wg (Some mng) timeout))"
proof -
  have null: "mnt_monitor_wait ops w None timeout = Some (- 22, w, None)"
    by (simp add: mnt_monitor_wait_def)
  have range: "(rc = 1 \<or> rc = 0 \<or> rc < 0) \<and>
      (\<exists>mn'. mno' = Some mn' \<and>
         (0 \<le> rc \<longrightarrow> 0 \<le> mn_fd mn' \<and> (mn_fd mn < 0 \<longrightarrow> mn_fd mn' = fst (epoll_create1 w))) \<and>
         (rc = 1 \<longrightarrow> (\<exists>i < length (mn_ents mn'). me_active (mn_ents mn' ! i))))"
    if run: "mnt_monitor_wait ops w (Some mn) timeout = Some (rc, w', mno')"
  proof (cases "mn_fd mn < 0")
    case False
    with run obtain rc2 act mn2 where
      rd: "read_epoll_events ops w mn timeout = Some (rc2, act, w', mn2)"
      and out: "rc = (if rc2 = 0 then 1 else if rc2 = 1 then 0 else rc2)" "mno' = Some mn2"
      by (auto simp: mnt_monitor_wait_def split: option.splits)
    from read_epoll_events_frame [OF rd] False out show ?thesis
      by auto
  next
    case True
    from run True obtain rc1 wa mnoa where
      g: "mnt_monitor_get_fd ops w (Some mn) = Some (rc1, wa, mnoa)"
      by (auto simp: mnt_monitor_wait_def split: option.splits)
    from get_fd_outcome [OF True g] obtain mna where
      mna: "mnoa = Some mna"
      "(0 \<le> rc1 \<and> mn_fd mna = rc1 \<and> rc1 = fst (epoll_create1 w)) \<or> (rc1 < 0 \<and> mn_fd mna = - 1)"
      by blast
    show ?thesis
    proof (cases "rc1 < 0")
      case neg: True
      with run True g mna show ?thesis
        by (auto simp: mnt_monitor_wait_def)
    next
      case pos: False
      with run True g mna obtain rc2 act mn2 where
        rd: "read_epoll_events ops wa mna timeout = Some (rc2, act, w', mn2)"
        and out: "rc = (if rc2 = 0 then 1 else if rc2 = 1 then 0 else rc2)" "mno' = Some mn2"
        by (auto simp: mnt_monitor_wait_def split: option.splits)
      from read_epoll_events_frame [OF rd] pos mna out show ?thesis
        by auto
    qed
  qed
  have expired: "mnt_monitor_wait ops w (Some mn) timeout = Some (0, w1, Some mn)"
    if "0 \<le> mn_fd mn" and ew: "epoll_wait w (mn_fd mn) timeout = Some (0, p, w1)"
    using read_epoll_events_nothing [OF ew, of ops] that(1) by (simp add: mnt_monitor_wait_def)
  have failed: "mnt_monitor_wait ops w (Some mn) timeout = Some (- int (os_errno w1), w1, Some mn) \<and>
      - int (os_errno w1) < 0"
    if fd: "0 \<le> mn_fd mn" and ew: "epoll_wait w (mn_fd mn) timeout = Some (r, p, w1)" and neg: "r < 0"
  proof -
    from epoll_wait_result [OF ew] neg have e: "0 < os_errno w1" by auto
    have "read_epoll_events ops w mn timeout = Some (- int (os_errno w1), None, w1, mn)"
      by (subst read_epoll_events.simps) (simp add: ew neg)
    with fd e show ?thesis by (simp add: mnt_monitor_wait_def)
  qed
  have untagged: "mnt_monitor_wait ops w (Some mn) timeout = Some (- 22, w1, Some mn)"
    if fd: "0 \<le> mn_fd mn" and ew: "epoll_wait w (mn_fd mn) timeout = Some (r, None, w1)" and pos: "0 < r"
  proof -
    have "read_epoll_events ops w mn timeout = Some (- 22, None, w1, mn)"
      using pos by (subst read_epoll_events.simps) (simp add: ew)
    with fd show ?thesis by (simp add: mnt_monitor_wait_def)
  qed
  have event: "(out_rc out = 0 \<longrightarrow>
         mnt_monitor_wait ops w (Some mn) timeout =
           Some (1, out_os out,
             Some (put_entry mn i ((drv_entry (mn_ents mn ! i) out)\<lparr>me_active := True\<rparr>)))) \<and>
      (out_rc out < 0 \<longrightarrow>
         mnt_monitor_wait ops w (Some mn) timeout =
           Some (out_rc out, out_os out, Some (put_entry mn i (drv_entry (mn_ents mn ! i) out)))) \<and>
      (0 < out_rc out \<longrightarrow>
         mnt_monitor_wait ops w (Some mn) timeout =
           mnt_monitor_wait ops (out_os out)
             (Some (put_entry mn i (drv_entry (mn_ents mn ! i) out))) timeout)"
    if fd: "0 \<le> mn_fd mn" and ew: "epoll_wait w (mn_fd mn) timeout = Some (r, Some i, w1)"
      and pos: "0 < r" and len: "i < length (mn_ents mn)"
      and out: "out = op_process_event (ops (me_opers (mn_ents mn ! i))) w1 mn (mn_ents mn ! i)"
  proof -
    let ?mn1 = "put_entry mn i (drv_entry (mn_ents mn ! i) out)"
    have step: "read_epoll_events ops w mn timeout =
        (if out_rc out < 0 then Some (out_rc out, None, out_os out, ?mn1)
         else if out_rc out = 0
           then Some (0, Some i, out_os out,
                  put_entry mn i ((drv_entry (mn_ents mn ! i) out)\<lparr>me_active := True\<rparr>))
         else read_epoll_events ops (out_os out) ?mn1 timeout)"
      using pos len unfolding out
      by (subst read_epoll_events.simps) (simp add: ew Let_def put_entry_twice)
    have fd1: "\<not> mn_fd ?mn1 < 0" using fd by (simp add: put_entry_simps)
    from fd have fd0: "\<not> mn_fd mn < 0" by simp
    show ?thesis
      unfolding mnt_monitor_wait_def using fd0 fd1 by (simp add: step)
  qed
  have first: "(rc1 < 0 \<longrightarrow> mnt_monitor_wait ops w (Some mn) timeout = Some (rc1, wg, Some mng)) \<and>
      (0 \<le> rc1 \<longrightarrow> mn_fd mng = fst (epoll_create1 w) \<and> 0 \<le> mn_fd mng \<and>
         mnt_monitor_wait ops w (Some mn) timeout = mnt_monitor_wait ops wg (Some mng) timeout)"
    if nofd: "mn_fd mn < 0" and g: "mnt_monitor_get_fd ops w (Some mn) = Some (rc1, wg, Some mng)"
  proof -
    from get_fd_outcome [OF nofd g]
    have o: "(0 \<le> rc1 \<and> mn_fd mng = rc1 \<and> rc1 = fst (epoll_create1 w)) \<or> (rc1 < 0 \<and> mn_fd mng = - 1)"
      by simp
    show ?thesis
    proof (cases "rc1 < 0")
      case True
      with nofd g show ?thesis by (simp add: mnt_monitor_wait_def)
    next
      case False
      with o have "\<not> mn_fd mng < 0" "mn_fd mng = fst (epoll_create1 w)" by auto
      with False nofd g show ?thesis by (simp add: mnt_monitor_wait_def)
    qed
  qed
  show ?thesis
    by (intro conjI;
        (rule null | (intro impI, (elim conjE)?, (rule range expired failed untagged event first; assumption))))
qed

lemma wait_run_first_use:
  "mnt_monitor_wait sample_opers sample_os (Some enabled_monitor) 0 =
     Some (0,
       \<lparr>os_errno = 0,
        os_fds = [(0, Plain 0), (1, Plain 0), (2, Plain 0),
                  (3, EventPoll \<lparr>ep_items = [(4, \<lparr>ev_events = EPOLLIN OR EPOLLET, ev_ptr = Some 0\<rparr>)],
                                 ep_rdllist = []\<rparr>),
                  (4, Plain EPOLLIN)],
        os_nofile = 16, os_max_user_watches = 8, os_sigpending = False\<rparr>,
       Some (enabled_monitor\<lparr>mn_fd := 3, mn_ents := [polled_entry\<lparr>me_enabled := True, me_fd := 4\<rparr>]\<rparr>))"
  by code_simp

lemma wait_run_interrupted:
  "epoll_wait (reported_os\<lparr>os_sigpending := True\<rparr>) (mn_fd reported_monitor) (- 1) =
     Some (- 1, None, reported_os\<lparr>os_errno := EINTR\<rparr>)"
  by code_simp

lemma wait_run_delivered:
  "epoll_wait pending_os (mn_fd (reported_monitor\<lparr>mn_last := None\<rparr>)) (- 1) = Some (1, Some 0, pending_os)"
  "out_rc (op_process_event
       (sample_opers (me_opers (mn_ents (reported_monitor\<lparr>mn_last := None\<rparr>) ! 0)))
       pending_os (reported_monitor\<lparr>mn_last := None\<rparr>)
       (mn_ents (reported_monitor\<lparr>mn_last := None\<rparr>) ! 0)) = 0"
  by code_simp+

theorem wait_results_witness:
  "mnt_monitor_wait sample_opers sample_os None 0 = Some (- 22, sample_os, None) \<and>
   (\<exists>w' mn'. mnt_monitor_wait sample_opers sample_os (Some enabled_monitor) 0 = Some (0, w', Some mn') \<and>
      mn_fd mn' = 3) \<and>
   (\<exists>w' mn'. mnt_monitor_wait sample_opers pending_os (Some (reported_monitor\<lparr>mn_last := None\<rparr>)) (- 1) =
      Some (1, w', Some mn') \<and> (\<exists>i < length (mn_ents mn'). me_active (mn_ents mn' ! i))) \<and>
   epoll_wait reported_os (mn_fd reported_monitor) 250 = Some (0, None, reported_os) \<and>
   mnt_monitor_wait sample_opers reported_os (Some reported_monitor) 250 =
     Some (0, reported_os, Some reported_monitor) \<and>
   mnt_monitor_wait sample_opers (reported_os\<lparr>os_sigpending := True\<rparr>) (Some reported_monitor) (- 1) =
     Some (- 4, reported_os\<lparr>os_errno := EINTR\<rparr>, Some reported_monitor) \<and>
   (\<exists>w' mn'. mnt_monitor_wait sample_opers sample_os (Some enabled_monitor) 0 =
      mnt_monitor_wait sample_opers w' (Some mn') 0 \<and> mn_fd mn' = 3)"
proof -
  let ?V = "\<lparr>os_errno = 0,
        os_fds = [(0, Plain 0), (1, Plain 0), (2, Plain 0),
                  (3, EventPoll \<lparr>ep_items = [(4, \<lparr>ev_events = EPOLLIN OR EPOLLET, ev_ptr = Some 0\<rparr>)],
                                 ep_rdllist = []\<rparr>),
                  (4, Plain EPOLLIN)],
        os_nofile = 16, os_max_user_watches = 8, os_sigpending = False\<rparr>"
  let ?N = "enabled_monitor\<lparr>mn_fd := 3, mn_ents := [polled_entry\<lparr>me_enabled := True, me_fd := 4\<rparr>]\<rparr>"
  let ?P = "reported_monitor\<lparr>mn_last := None\<rparr>"
  let ?out = "op_process_event (sample_opers (me_opers (mn_ents ?P ! 0))) pending_os ?P (mn_ents ?P ! 0)"
  have nofd: "mn_fd enabled_monitor < 0" by (simp add: enabled_monitor_def mnt_new_monitor_def)
  have cr: "fst (epoll_create1 sample_os) = 3" by code_simp
  have fd: "0 \<le> mn_fd reported_monitor" "0 \<le> mn_fd ?P" "0 < length (mn_ents ?P)"
    by (simp_all add: reported_monitor_def)
  have ew: "epoll_wait reported_os (mn_fd reported_monitor) 250 = Some (0, None, reported_os)"
    by code_simp
  have eintr: "os_errno (reported_os\<lparr>os_errno := EINTR\<rparr>) = 4" by simp
  note a = wait_results [where ops = sample_opers and w = sample_os and timeout = 0, THEN conjunct1]
  from wait_results [where ops = sample_opers and w = sample_os and mn = enabled_monitor and timeout = 0
         and rc = 0 and w' = ?V and mno' = "Some ?N", THEN conjunct2, THEN conjunct1]
       wait_run_first_use nofd cr
  have b: "mn_fd ?N = 3" by auto
  from wait_results [where ops = sample_opers and w = pending_os and mn = ?P and timeout = "- 1"
         and r = 1 and i = 0 and ?w1.0 = pending_os and out = ?out,
         THEN conjunct2, THEN conjunct2, THEN conjunct2, THEN conjunct2, THEN conjunct2, THEN conjunct1]
       fd(2,3) wait_run_delivered
  have c1: "mnt_monitor_wait sample_opers pending_os (Some ?P) (- 1) =
      Some (1, out_os ?out, Some (put_entry ?P 0 ((drv_entry (mn_ents ?P ! 0) ?out)\<lparr>me_active := True\<rparr>)))"
    by simp
  from wait_results [where ops = sample_opers and w = pending_os and mn = ?P and timeout = "- 1"
         and rc = 1 and w' = "out_os ?out"
         and mno' = "Some (put_entry ?P 0 ((drv_entry (mn_ents ?P ! 0) ?out)\<lparr>me_active := True\<rparr>))",
         THEN conjunct2, THEN conjunct1]
       c1
  have c2: "\<exists>i < length (mn_ents (put_entry ?P 0 ((drv_entry (mn_ents ?P ! 0) ?out)\<lparr>me_active := True\<rparr>))).
      me_active (mn_ents (put_entry ?P 0 ((drv_entry (mn_ents ?P ! 0) ?out)\<lparr>me_active := True\<rparr>)) ! i)"
    by simp
  from c1 c2 have c: "\<exists>w' mn'. mnt_monitor_wait sample_opers pending_os (Some ?P) (- 1) =
      Some (1, w', Some mn') \<and> (\<exists>i < length (mn_ents mn'). me_active (mn_ents mn' ! i))"
    by blast
  from wait_results [where ops = sample_opers and w = reported_os and mn = reported_monitor
         and timeout = 250 and p = None and ?w1.0 = reported_os,
         THEN conjunct2, THEN conjunct2, THEN conjunct1]
       fd(1) ew
  have d: "mnt_monitor_wait sample_opers reported_os (Some reported_monitor) 250 =
     Some (0, reported_os, Some reported_monitor)" by simp
  from wait_results [where ops = sample_opers and w = "reported_os\<lparr>os_sigpending := True\<rparr>"
         and mn = reported_monitor and timeout = "- 1" and r = "- 1" and p = None
         and ?w1.0 = "reported_os\<lparr>os_errno := EINTR\<rparr>",
         THEN conjunct2, THEN conjunct2, THEN conjunct2, THEN conjunct1]
       fd(1) wait_run_interrupted
  have e: "mnt_monitor_wait sample_opers (reported_os\<lparr>os_sigpending := True\<rparr>) (Some reported_monitor) (- 1) =
     Some (- 4, reported_os\<lparr>os_errno := EINTR\<rparr>, Some reported_monitor)"
    by (simp add: eintr)
  from wait_results [where ops = sample_opers and w = sample_os and mn = enabled_monitor
         and timeout = 0 and ?rc1.0 = 3 and wg = ?V and mng = ?N,
         THEN conjunct2, THEN conjunct2, THEN conjunct2, THEN conjunct2, THEN conjunct2, THEN conjunct2]
       nofd get_fd_run_success
  have f: "mnt_monitor_wait sample_opers sample_os (Some enabled_monitor) 0 =
      mnt_monitor_wait sample_opers ?V (Some ?N) 0"
    by simp
  from b wait_run_first_use have B: "\<exists>w' mn'. mnt_monitor_wait sample_opers sample_os (Some enabled_monitor) 0 =
      Some (0, w', Some mn') \<and> mn_fd mn' = 3" by blast
  from f b have F: "\<exists>w' mn'. mnt_monitor_wait sample_opers sample_os (Some enabled_monitor) 0 =
      mnt_monitor_wait sample_opers w' (Some mn') 0 \<and> mn_fd mn' = 3" by blast
  from a B c ew d e F show ?thesis by blast
qed


subsection \<open>C6: the drain after a registration\<close>

lemma enable_run_pending:
  "out_rc (op_get_fd (sample_opers (me_opers ((mn_ents disabled_monitor ! 0)\<lparr>me_enabled := True, me_active := False\<rparr>)))
       missed_os
       (put_entry disabled_monitor 0 ((mn_ents disabled_monitor ! 0)\<lparr>me_enabled := True, me_active := False\<rparr>))
       ((mn_ents disabled_monitor ! 0)\<lparr>me_enabled := True, me_active := False\<rparr>)) = 4"
  "out_os (op_get_fd (sample_opers (me_opers ((mn_ents disabled_monitor ! 0)\<lparr>me_enabled := True, me_active := False\<rparr>)))
       missed_os
       (put_entry disabled_monitor 0 ((mn_ents disabled_monitor ! 0)\<lparr>me_enabled := True, me_active := False\<rparr>))
       ((mn_ents disabled_monitor ! 0)\<lparr>me_enabled := True, me_active := False\<rparr>)) = missed_os"
  "me_events ((mn_ents disabled_monitor ! 0)\<lparr>me_enabled := True, me_active := False\<rparr>) = EPOLLIN"
  "epoll_ctl missed_os 3 EPOLL_CTL_ADD 4 (Some \<lparr>ev_events = EPOLLIN, ev_ptr = Some 0\<rparr>) = (0, pending_os)"
  "level_pending pending_os 3"
  "mn_fd disabled_monitor = 3"
  "length (mn_ents disabled_monitor) = 1"
  by code_simp+

text \<open>
  C6 does not hold of the code for a level-triggered entry. The drain loop of
  \<^verbatim>\<open>monitor_modify_epoll\<close>, \<^verbatim>\<open>while (epoll_wait(mn->fd, events, 1, 0) > 0);\<close>, ends
  only when \<^verbatim>\<open>epoll_wait\<close> reports nothing, and \<^verbatim>\<open>epoll_wait\<close> does not take the
  readiness of a level-triggered descriptor away. On a monitor with an epoll instance
  (descriptor 3), enabling again the disabled entry that wants \<^verbatim>\<open>EPOLLIN\<close>, on whose
  open descriptor (4) a notification has arrived in the meantime, never returns: the
  registration succeeds, every \<^verbatim>\<open>epoll_wait\<close> of the loop returns 1 and leaves things
  as they are, and no \<^verbatim>\<open>mnt_monitor_wait\<close> with timeout 0 can follow and report
  "timed out".
\<close>

theorem enable_level_triggered_never_returns:
  "monitor_modify_epoll sample_opers missed_os disabled_monitor 0 True = None \<and>
   length (mn_ents disabled_monitor) = 1 \<and> me_events (mn_ents disabled_monitor ! 0) = EPOLLIN \<and>
   epoll_ctl missed_os 3 EPOLL_CTL_ADD 4 (Some \<lparr>ev_events = EPOLLIN, ev_ptr = Some 0\<rparr>) = (0, pending_os) \<and>
   epoll_wait pending_os 3 0 = Some (1, Some 0, pending_os) \<and>
   drain_events pending_os 3 = None"
proof (intro conjI)
  let ?me = "(mn_ents disabled_monitor ! 0)\<lparr>me_enabled := True, me_active := False\<rparr>"
  let ?out = "op_get_fd (sample_opers (me_opers ?me)) missed_os (put_entry disabled_monitor 0 ?me) ?me"
  note r = enable_run_pending
  show "monitor_modify_epoll sample_opers missed_os disabled_monitor 0 True = None"
  proof (rule modify_epoll_enable_spins [where me = ?me and out = ?out and r = 0 and ?w2.0 = pending_os])
    show "0 \<le> mn_fd disabled_monitor" by (simp add: r)
    show "0 < length (mn_ents disabled_monitor)" by (simp add: r)
    show "?me = ?me" ..
    show "?out = ?out" ..
    show "0 \<le> out_rc ?out" unfolding r by simp
    show "epoll_ctl (out_os ?out) (mn_fd disabled_monitor) EPOLL_CTL_ADD (out_rc ?out)
            (Some \<lparr>ev_events = me_events ?me, ev_ptr = Some 0\<rparr>) = (0, pending_os)"
      by (simp only: r)
    show "\<not> ((0::int) < 0 \<and> os_errno pending_os \<noteq> EEXIST)" by simp
    show "me_events ?me AND (EPOLLIN OR EPOLLET) \<noteq> 0" unfolding r by simp
    show "level_pending pending_os (mn_fd disabled_monitor)" by (simp only: r)
  qed
  show "length (mn_ents disabled_monitor) = 1" by (rule r)
  show "me_events (mn_ents disabled_monitor ! 0) = EPOLLIN" by code_simp
  show "epoll_ctl missed_os 3 EPOLL_CTL_ADD 4 (Some \<lparr>ev_events = EPOLLIN, ev_ptr = Some 0\<rparr>) = (0, pending_os)"
    by (rule r)
  show "epoll_wait pending_os 3 0 = Some (1, Some 0, pending_os)" by code_simp
  show "drain_events pending_os 3 = None" by (rule drain_events_spins) (rule r)
qed

subsection \<open>C2: the registered descriptors and the enabled entries\<close>







end
